theory Spec2Isabelle
  imports Complex_Main
begin

section \<open>Go values, errors and the runtime the handlers call into\<close>

text \<open>
  A value of Go's \<^verbatim>\<open>interface{}\<close> as the handlers meet it: what \<^verbatim>\<open>encoding/json\<close>
  decodes a request into (nil, bool, float64, string, slices and maps) and what the
  collaborator stores in a resource's \<^verbatim>\<open>Details\<close>. A \<open>VMap\<close> list stands for a Go map.
\<close>

datatype iface =
    VNil
  | VBool bool
  | VInt int
  | VFloat real
  | VString string
  | VList "iface list"
  | VMap "(string \<times> iface) list"

text \<open>A Go \<^verbatim>\<open>error\<close> is kept as the text its \<^verbatim>\<open>Error()\<close> method returns.\<close>

type_synonym error = string

text \<open>\<^verbatim>\<open>map[string]interface{}\<close>, the arguments of a tool call.\<close>

type_synonym arguments = "string \<rightharpoonup> iface"

text \<open>
  The standard library as far as the handlers use it: \<^verbatim>\<open>json.MarshalIndent(v, "", "  ")\<close>
  and the reading of \<^verbatim>\<open>time.Now().UTC().Format("2006-01-02T15:04:05Z")\<close> at the moment a
  tool response is built. Both are inputs of the model.
\<close>

record runtime =
  MarshalIndent :: "iface \<Rightarrow> error + string"
  Now :: string

text \<open>\<^verbatim>\<open>jsonData, _ := json.MarshalIndent(...)\<close> followed by \<^verbatim>\<open>string(jsonData)\<close>: a failed
  encoding leaves the nil slice, whose string is empty.\<close>

definition marshal_ignoring_error :: "runtime \<Rightarrow> iface \<Rightarrow> string" where
  "marshal_ignoring_error rt v = (case MarshalIndent rt v of Inl err \<Rightarrow> [] | Inr jsonData \<Rightarrow> jsonData)"

section \<open>The collaborator: pkg/aws and pkg/types\<close>

text \<open>\<^verbatim>\<open>types.AWSResource\<close>. \<open>Tags\<close> and \<open>Details\<close> are Go maps, read with \<^const>\<open>map_of\<close>;
  \<open>LastSeen\<close> is kept as the text \<^verbatim>\<open>Format("2006-01-02T15:04:05Z07:00")\<close> renders.\<close>

record AWSResource =
  ID :: string
  Type :: string
  Region :: string
  State :: string
  Tags :: "(string \<times> string) list"
  Details :: "(string \<times> iface) list"
  LastSeen :: string

text \<open>\<^verbatim>\<open>aws.CreateInstanceParams\<close>, as \<^verbatim>\<open>createEC2Instance\<close> fills it.\<close>

record CreateInstanceParams =
  ImageID :: string
  InstanceType :: string
  KeyName :: string
  SecurityGroupID :: string
  SubnetID :: string
  Name :: string

text \<open>
  \<^verbatim>\<open>*aws.Client\<close> as the handlers use it: what each method returns. An action returning
  only an \<^verbatim>\<open>error\<close> gives \<open>None\<close> for nil.
\<close>

record awsClient =
  ListEC2Instances :: "error + AWSResource list"
  GetEC2Instance :: "string \<Rightarrow> error + AWSResource"
  CreateEC2Instance :: "CreateInstanceParams \<Rightarrow> error + AWSResource"
  StartEC2Instance :: "string \<Rightarrow> error option"
  StopEC2Instance :: "string \<Rightarrow> error option"
  TerminateEC2Instance :: "string \<Rightarrow> error option"

text \<open>The actions a tool handler asks of the collaborator, in the order it asks them.\<close>

datatype aws_call =
    CallCreate CreateInstanceParams
  | CallStart string
  | CallStop string
  | CallTerminate string

section \<open>Tool handlers\<close>

text \<open>\<^verbatim>\<open>mcp.TextContent\<close> and \<^verbatim>\<open>mcp.CallToolResult\<close>.\<close>

record TextContent =
  ContentType :: string
  Text :: string

record CallToolResult =
  Content :: "TextContent list"

text \<open>A handler returns \<^verbatim>\<open>(*mcp.CallToolResult, error)\<close>: \<open>Inl\<close> is the pair of a nil
  result and an error, \<open>Inr\<close> a result and the nil error. The calls made to the
  collaborator come first.\<close>

type_synonym tool_outcome = "aws_call list \<times> (error + CallToolResult)"

text \<open>\<^verbatim>\<open>v, ok := arguments[key].(string)\<close>: a missing key reads as the nil interface,
  and a failed assertion leaves the empty string.\<close>

definition assert_string :: "iface option \<Rightarrow> string \<times> bool" where
  "assert_string v = (case v of Some (VString s) \<Rightarrow> (s, True) | _ \<Rightarrow> ([], False))"

definition createErrorResponse :: "runtime \<Rightarrow> string \<Rightarrow> error + CallToolResult" where
  "createErrorResponse rt message =
     (let errorData = VMap [(''success'', VBool False),
                            (''error'', VString message),
                            (''timestamp'', VString (Now rt))];
          jsonData = marshal_ignoring_error rt errorData
      in Inr \<lparr>Content = [\<lparr>ContentType = ''text'', Text = jsonData\<rparr>]\<rparr>)"

text \<open>\<^verbatim>\<open>m[key] = value\<close> on a Go map, as in \<^verbatim>\<open>responseData[key] = value\<close>.\<close>

fun assign :: "string \<Rightarrow> 'a \<Rightarrow> (string \<times> 'a) list \<Rightarrow> (string \<times> 'a) list" where
  "assign k v [] = [(k, v)]"
| "assign k v ((k', v') # m) = (if k = k' then (k, v) # m else (k', v') # assign k v m)"

definition createSuccessResponse ::
  "runtime \<Rightarrow> string \<Rightarrow> (string \<times> iface) list \<Rightarrow> error + CallToolResult" where
  "createSuccessResponse rt message data =
     (let responseData = [(''success'', VBool True),
                          (''message'', VString message),
                          (''timestamp'', VString (Now rt))];
          responseData = foldl (\<lambda>m (key, val). assign key val m) responseData data;
          jsonData = marshal_ignoring_error rt (VMap responseData)
      in Inr \<lparr>Content = [\<lparr>ContentType = ''text'', Text = jsonData\<rparr>]\<rparr>)"

text \<open>\<^verbatim>\<open>m[key]\<close> on a \<^verbatim>\<open>map[string]interface{}\<close>: nil when the key is missing.\<close>

definition index_iface :: "(string \<times> iface) list \<Rightarrow> string \<Rightarrow> iface" where
  "index_iface m k = (case map_of m k of None \<Rightarrow> VNil | Some v \<Rightarrow> v)"

text \<open>\<^verbatim>\<open>if val, exists := arguments[key]; exists { x, _ = val.(string) }\<close> on \<open>x\<close> declared
  empty.\<close>

definition optional_string :: "arguments \<Rightarrow> string \<Rightarrow> string" where
  "optional_string arguments k =
     (case arguments k of None \<Rightarrow> [] | Some val \<Rightarrow> fst (assert_string (Some val)))"

definition createEC2Instance :: "runtime \<Rightarrow> awsClient \<Rightarrow> arguments \<Rightarrow> tool_outcome" where
  "createEC2Instance rt c arguments =
     (let (imageID, ok) = assert_string (arguments ''imageId'') in
      if \<not> ok \<or> imageID = [] then ([], createErrorResponse rt ''imageId is required'')
      else
        let (instanceType, ok) = assert_string (arguments ''instanceType'') in
        if \<not> ok \<or> instanceType = [] then ([], createErrorResponse rt ''instanceType is required'')
        else
          let keyName = optional_string arguments ''keyName'';
              securityGroupID = optional_string arguments ''securityGroupId'';
              subnetID = optional_string arguments ''subnetId'';
              name = optional_string arguments ''name'';
              params = \<lparr>ImageID = imageID, InstanceType = instanceType, KeyName = keyName,
                        SecurityGroupID = securityGroupID, SubnetID = subnetID, Name = name\<rparr>
          in case CreateEC2Instance c params of
               Inl err \<Rightarrow>
                 ([CallCreate params],
                  createErrorResponse rt (''failed to create EC2 instance: '' @ err))
             | Inr resource \<Rightarrow>
                 ([CallCreate params],
                  createSuccessResponse rt ''EC2 instance created successfully''
                    [(''instanceId'', VString (ID resource)),
                     (''state'', VString (State resource)),
                     (''instanceType'', index_iface (Details resource) ''instanceType'')]))"

definition startEC2Instance :: "runtime \<Rightarrow> awsClient \<Rightarrow> arguments \<Rightarrow> tool_outcome" where
  "startEC2Instance rt c arguments =
     (let (instanceID, ok) = assert_string (arguments ''instanceId'') in
      if \<not> ok \<or> instanceID = [] then ([], createErrorResponse rt ''instanceId is required'')
      else case StartEC2Instance c instanceID of
             Some err \<Rightarrow>
               ([CallStart instanceID],
                createErrorResponse rt (''failed to start EC2 instance: '' @ err))
           | None \<Rightarrow>
               ([CallStart instanceID],
                createSuccessResponse rt ''EC2 instance start initiated successfully''
                  [(''instanceId'', VString instanceID), (''action'', VString ''start'')]))"

definition stopEC2Instance :: "runtime \<Rightarrow> awsClient \<Rightarrow> arguments \<Rightarrow> tool_outcome" where
  "stopEC2Instance rt c arguments =
     (let (instanceID, ok) = assert_string (arguments ''instanceId'') in
      if \<not> ok \<or> instanceID = [] then ([], createErrorResponse rt ''instanceId is required'')
      else case StopEC2Instance c instanceID of
             Some err \<Rightarrow>
               ([CallStop instanceID],
                createErrorResponse rt (''failed to stop EC2 instance: '' @ err))
           | None \<Rightarrow>
               ([CallStop instanceID],
                createSuccessResponse rt ''EC2 instance stop initiated successfully''
                  [(''instanceId'', VString instanceID), (''action'', VString ''stop'')]))"

definition terminateEC2Instance :: "runtime \<Rightarrow> awsClient \<Rightarrow> arguments \<Rightarrow> tool_outcome" where
  "terminateEC2Instance rt c arguments =
     (let (instanceID, ok) = assert_string (arguments ''instanceId'') in
      if \<not> ok \<or> instanceID = [] then ([], createErrorResponse rt ''instanceId is required'')
      else case TerminateEC2Instance c instanceID of
             Some err \<Rightarrow>
               ([CallTerminate instanceID],
                createErrorResponse rt (''failed to terminate EC2 instance: '' @ err))
           | None \<Rightarrow>
               ([CallTerminate instanceID],
                createSuccessResponse rt ''EC2 instance termination initiated successfully''
                  [(''instanceId'', VString instanceID), (''action'', VString ''terminate'')]))"

text \<open>\<^verbatim>\<open>CallTool\<close>: the switch on the tool name. The log line written first has no part
  in the result and is left out.\<close>

definition CallTool :: "runtime \<Rightarrow> awsClient \<Rightarrow> string \<Rightarrow> arguments \<Rightarrow> tool_outcome" where
  "CallTool rt c name arguments =
     (if name = ''create-ec2-instance'' then createEC2Instance rt c arguments
      else if name = ''start-ec2-instance'' then startEC2Instance rt c arguments
      else if name = ''stop-ec2-instance'' then stopEC2Instance rt c arguments
      else if name = ''terminate-ec2-instance'' then terminateEC2Instance rt c arguments
      else ([], Inl (''unknown tool: '' @ name)))"

text \<open>
  \<^verbatim>\<open>registerTools\<close>: the tools in the order they are added, each with its string
  parameters and whether \<^verbatim>\<open>mcp.Required()\<close> marks them.
\<close>

definition registerTools :: "(string \<times> (string \<times> bool) list) list" where
  "registerTools =
     [(''create-ec2-instance'',
         [(''imageId'', True), (''instanceType'', True), (''keyName'', False),
          (''securityGroupId'', False), (''subnetId'', False), (''name'', False)]),
      (''start-ec2-instance'', [(''instanceId'', True)]),
      (''stop-ec2-instance'', [(''instanceId'', True)]),
      (''terminate-ec2-instance'', [(''instanceId'', True)])]"

text \<open>A parameter passes validation when it is bound to a string that is not empty.\<close>

definition non_empty_string :: "arguments \<Rightarrow> string \<Rightarrow> bool" where
  "non_empty_string arguments p =
     (case arguments p of Some (VString s) \<Rightarrow> s \<noteq> [] | _ \<Rightarrow> False)"

definition validation_passes :: "(string \<times> bool) list \<Rightarrow> arguments \<Rightarrow> bool" where
  "validation_passes params arguments =
     list_all (\<lambda>(p, required). required \<longrightarrow> non_empty_string arguments p) params"

text \<open>The required parameters declared before \<open>p\<close>.\<close>

definition required_before :: "(string \<times> bool) list \<Rightarrow> string \<Rightarrow> string list" where
  "required_before params p =
     map fst (filter snd (takeWhile (\<lambda>(q, required). q \<noteq> p) params))"

text \<open>The error, if any, the collaborator answers a call with.\<close>

fun call_error :: "awsClient \<Rightarrow> aws_call \<Rightarrow> error option" where
  "call_error c (CallCreate params) =
     (case CreateEC2Instance c params of Inl err \<Rightarrow> Some err | Inr resource \<Rightarrow> None)"
| "call_error c (CallStart instanceID) = StartEC2Instance c instanceID"
| "call_error c (CallStop instanceID) = StopEC2Instance c instanceID"
| "call_error c (CallTerminate instanceID) = TerminateEC2Instance c instanceID"

text \<open>The action each tool names in the message of a collaborator failure.\<close>

definition failure_action :: "string \<Rightarrow> string" where
  "failure_action name =
     (if name = ''create-ec2-instance'' then ''create EC2 instance''
      else if name = ''start-ec2-instance'' then ''start EC2 instance''
      else if name = ''stop-ec2-instance'' then ''stop EC2 instance''
      else ''terminate EC2 instance'')"

text \<open>The parameters \<^verbatim>\<open>createEC2Instance\<close> hands to the collaborator once validation has passed.\<close>

definition create_params :: "arguments \<Rightarrow> CreateInstanceParams" where
  "create_params arguments =
     \<lparr>ImageID = fst (assert_string (arguments ''imageId'')),
      InstanceType = fst (assert_string (arguments ''instanceType'')),
      KeyName = optional_string arguments ''keyName'',
      SecurityGroupID = optional_string arguments ''securityGroupId'',
      SubnetID = optional_string arguments ''subnetId'',
      Name = optional_string arguments ''name''\<rparr>"

section \<open>Resource handlers\<close>

text \<open>\<^verbatim>\<open>mcp.TextResourceContents\<close> (its \<^verbatim>\<open>Text\<close> field is \<open>ResourceText\<close> here) and
  \<^verbatim>\<open>mcp.ReadResourceResult\<close>.\<close>

record TextResourceContents =
  URI :: string
  MIMEType :: string
  ResourceText :: string

record ReadResourceResult =
  Contents :: "TextResourceContents list"

text \<open>\<^verbatim>\<open>strings.HasPrefix\<close> and \<^verbatim>\<open>strings.TrimPrefix\<close>, on bytes.\<close>

definition HasPrefix :: "string \<Rightarrow> string \<Rightarrow> bool" where
  "HasPrefix s prefix = (length prefix \<le> length s \<and> take (length prefix) s = prefix)"

definition TrimPrefix :: "string \<Rightarrow> string \<Rightarrow> string" where
  "TrimPrefix s prefix = (if HasPrefix s prefix then drop (length prefix) s else s)"

text \<open>\<^verbatim>\<open>count[key]++\<close> on a \<^verbatim>\<open>map[string]int\<close>; the counts stay far below the range of
  Go's \<^verbatim>\<open>int\<close>, one per instance.\<close>

fun increment :: "string \<Rightarrow> (string \<times> int) list \<Rightarrow> (string \<times> int) list" where
  "increment k [] = [(k, 1)]"
| "increment k ((k', n) # m) = (if k = k' then (k, n + 1) # m else (k', n) # increment k m)"

text \<open>The body of the loop of \<^verbatim>\<open>formatInstancesForAI\<close>: the map built for one instance.\<close>

definition formatted_entry :: "AWSResource \<Rightarrow> (string \<times> iface) list" where
  "formatted_entry instance =
     (let formatted = [(''id'', VString (ID instance)),
                       (''state'', VString (State instance)),
                       (''type'', index_iface (Details instance) ''instanceType''),
                       (''region'', VString (Region instance))];
          formatted = (case map_of (Tags instance) ''Name'' of
                         Some name \<Rightarrow> assign ''name'' (VString name) formatted
                       | None \<Rightarrow> formatted);
          publicIP = index_iface (Details instance) ''publicIpAddress'';
          formatted = (if publicIP \<noteq> VNil then assign ''public_ip'' publicIP formatted
                       else formatted);
          privateIP = index_iface (Details instance) ''privateIpAddress'';
          formatted = (if privateIP \<noteq> VNil then assign ''private_ip'' privateIP formatted
                       else formatted)
      in formatted)"

text \<open>The loop itself, on the entries appended so far and the two counters.\<close>

fun formatInstances_loop ::
  "AWSResource list \<Rightarrow> iface list \<times> (string \<times> int) list \<times> (string \<times> int) list
     \<Rightarrow> iface list \<times> (string \<times> int) list \<times> (string \<times> int) list" where
  "formatInstances_loop [] acc = acc"
| "formatInstances_loop (instance # rest) (entries, stateCount, typeCount) =
     formatInstances_loop rest
       (entries @ [VMap (formatted_entry instance)],
        increment (State instance) stateCount,
        (case index_iface (Details instance) ''instanceType'' of
           VString instanceType \<Rightarrow> increment instanceType typeCount
         | _ \<Rightarrow> typeCount))"

definition counts_value :: "(string \<times> int) list \<Rightarrow> iface" where
  "counts_value m = VMap (map (\<lambda>(k, n). (k, VInt n)) m)"

definition formatInstancesForAI :: "AWSResource list \<Rightarrow> iface" where
  "formatInstancesForAI instances =
     (let (entries, stateCount, typeCount) = formatInstances_loop instances ([], [], [])
      in VMap [(''total_instances'', VInt (int (length instances))),
               (''instances'', VList entries),
               (''summary_by_state'', counts_value stateCount),
               (''summary_by_type'', counts_value typeCount)])"

definition formatInstanceForAI :: "AWSResource \<Rightarrow> iface" where
  "formatInstanceForAI instance =
     (let formatted = [(''id'', VString (ID instance)),
                       (''type'', VString (Type instance)),
                       (''state'', VString (State instance)),
                       (''region'', VString (Region instance)),
                       (''tags'', VMap (map (\<lambda>(k, v). (k, VString v)) (Tags instance))),
                       (''details'', VMap (Details instance)),
                       (''last_seen'', VString (LastSeen instance))];
          formatted = (case map_of (Tags instance) ''Name'' of
                         Some name \<Rightarrow> assign ''name'' (VString name) formatted
                       | None \<Rightarrow> assign ''name'' (VString (ID instance)) formatted);
          env = (case map_of (Tags instance) ''Environment'' of Some e \<Rightarrow> e | None \<Rightarrow> []);
          formatted = (if env \<noteq> [] then assign ''environment'' (VString env) formatted
                       else formatted)
      in VMap formatted)"

text \<open>A resource handler returns \<^verbatim>\<open>(*mcp.ReadResourceResult, error)\<close>; it only reads from
  the collaborator.\<close>

definition readEC2InstancesList :: "runtime \<Rightarrow> awsClient \<Rightarrow> error + ReadResourceResult" where
  "readEC2InstancesList rt c =
     (case ListEC2Instances c of
        Inl err \<Rightarrow> Inl (''failed to list EC2 instances: '' @ err)
      | Inr instances \<Rightarrow>
          (case MarshalIndent rt (formatInstancesForAI instances) of
             Inl err \<Rightarrow> Inl (''failed to marshal instances data: '' @ err)
           | Inr jsonData \<Rightarrow>
               Inr \<lparr>Contents = [\<lparr>URI = ''aws://ec2/instances'',
                                  MIMEType = ''application/json'',
                                  ResourceText = jsonData\<rparr>]\<rparr>))"

definition readEC2Instance :: "runtime \<Rightarrow> awsClient \<Rightarrow> string \<Rightarrow> error + ReadResourceResult" where
  "readEC2Instance rt c instanceID =
     (case GetEC2Instance c instanceID of
        Inl err \<Rightarrow> Inl (''failed to get EC2 instance: '' @ err)
      | Inr instance \<Rightarrow>
          (case MarshalIndent rt (formatInstanceForAI instance) of
             Inl err \<Rightarrow> Inl (''failed to marshal instance data: '' @ err)
           | Inr jsonData \<Rightarrow>
               Inr \<lparr>Contents = [\<lparr>URI = ''aws://ec2/instances/'' @ instanceID,
                                  MIMEType = ''application/json'',
                                  ResourceText = jsonData\<rparr>]\<rparr>))"

definition ReadResource :: "runtime \<Rightarrow> awsClient \<Rightarrow> string \<Rightarrow> error + ReadResourceResult" where
  "ReadResource rt c uri =
     (if uri = ''aws://ec2/instances'' then readEC2InstancesList rt c
      else if HasPrefix uri ''aws://ec2/instances/''
      then (let instanceID = TrimPrefix uri ''aws://ec2/instances/'' in readEC2Instance rt c instanceID)
      else Inl (''unknown resource URI: '' @ uri))"

section \<open>The EC2 client: pkg/aws/client.go\<close>

text \<open>
  \<^verbatim>\<open>ec2types.Instance\<close> as far as \<^verbatim>\<open>convertEC2Instance\<close> reads it. A tag is its \<^verbatim>\<open>Key\<close>
  and \<^verbatim>\<open>Value\<close> pointers, \<open>None\<close> for nil; \<^verbatim>\<open>Placement\<close> and \<^verbatim>\<open>LaunchTime\<close> are kept as the
  values stored under \<^verbatim>\<open>Details\<close>; \<open>StateName\<close> is \<^verbatim>\<open>instance.State.Name\<close>, the service
  filling \<^verbatim>\<open>State\<close> for every instance it describes.
\<close>

record ec2Instance =
  InstanceId :: "string option"
  InstanceTypeName :: string
  StateName :: string
  TagList :: "(string option \<times> string option) list"
  Placement :: iface
  LaunchTime :: iface
  PublicIpAddress :: "string option"
  PrivateIpAddress :: "string option"

text \<open>
  \<^verbatim>\<open>aws.Client\<close>: the region of its configuration and the backing state, as the answer of
  \<^verbatim>\<open>ec2.DescribeInstances\<close> to the \<^verbatim>\<open>InstanceIds\<close> of its input (empty when none are
  given): an error, or the reservations, each with its instances.
\<close>

record Client =
  cfgRegion :: string
  DescribeInstances :: "string list \<Rightarrow> error + ec2Instance list list"

text \<open>
  The readings of \<^verbatim>\<open>time.Now()\<close> that \<^verbatim>\<open>convertEC2Instance\<close> makes during one call of the
  client, in order. A reading is kept as the text
  \<^verbatim>\<open>Format("2006-01-02T15:04:05Z07:00")\<close> gives for it, the one use the handlers make of
  \<^verbatim>\<open>LastSeen\<close>; readings within the same second are the same text.
\<close>

type_synonym clock = "nat \<Rightarrow> string"

text \<open>The loop over \<^verbatim>\<open>instance.Tags\<close>.\<close>

fun collect_tags ::
  "(string option \<times> string option) list \<Rightarrow> (string \<times> string) list \<Rightarrow> (string \<times> string) list" where
  "collect_tags [] tags = tags"
| "collect_tags ((Some key, Some val) # rest) tags = collect_tags rest (assign key val tags)"
| "collect_tags ((None, val) # rest) tags = collect_tags rest tags"
| "collect_tags ((Some key, None) # rest) tags = collect_tags rest tags"

text \<open>\<^verbatim>\<open>convertEC2Instance\<close>, with the reading of the clock it stamps the record with.\<close>

definition convertEC2Instance :: "Client \<Rightarrow> ec2Instance \<Rightarrow> string \<Rightarrow> AWSResource" where
  "convertEC2Instance c instance now =
     (let tags = collect_tags (TagList instance) [];
          details = [(''instanceType'', VString (InstanceTypeName instance)),
                     (''placement'', Placement instance),
                     (''launchTime'', LaunchTime instance)];
          details = (case PublicIpAddress instance of
                       Some ip \<Rightarrow> assign ''publicIpAddress'' (VString ip) details
                     | None \<Rightarrow> details);
          details = (case PrivateIpAddress instance of
                       Some ip \<Rightarrow> assign ''privateIpAddress'' (VString ip) details
                     | None \<Rightarrow> details);
          instanceID = (case InstanceId instance of Some i \<Rightarrow> i | None \<Rightarrow> [])
      in \<lparr>ID = instanceID, Type = ''ec2-instance'', Region = cfgRegion c,
          State = StateName instance, Tags = tags, Details = details, LastSeen = now\<rparr>)"

text \<open>The two loops of \<^verbatim>\<open>ListEC2Instances\<close> over reservations and instances: the \<open>k\<close>-th
  instance converted is stamped with the \<open>k\<close>-th reading.\<close>

fun convert_from :: "Client \<Rightarrow> clock \<Rightarrow> nat \<Rightarrow> ec2Instance list \<Rightarrow> AWSResource list" where
  "convert_from c clock k [] = []"
| "convert_from c clock k (instance # rest) =
     convertEC2Instance c instance (clock k) # convert_from c clock (Suc k) rest"

text \<open>\<^verbatim>\<open>(*Client).ListEC2Instances\<close>; its own readings of the clock and its log lines only
  report the duration.\<close>

definition Client_ListEC2Instances :: "Client \<Rightarrow> clock \<Rightarrow> error + AWSResource list" where
  "Client_ListEC2Instances c clock =
     (case DescribeInstances c [] of
        Inl err \<Rightarrow> Inl (''failed to describe instances: '' @ err)
      | Inr reservations \<Rightarrow> Inr (convert_from c clock 0 (concat reservations)))"

text \<open>\<^verbatim>\<open>(*Client).GetEC2Instance\<close>.\<close>

definition Client_GetEC2Instance :: "Client \<Rightarrow> clock \<Rightarrow> string \<Rightarrow> error + AWSResource" where
  "Client_GetEC2Instance c clock instanceID =
     (case DescribeInstances c [instanceID] of
        Inl err \<Rightarrow> Inl (''failed to describe instance '' @ instanceID @ '': '' @ err)
      | Inr reservations \<Rightarrow>
          (case reservations of
             [] \<Rightarrow> Inl (''instance '' @ instanceID @ '' not found'')
           | reservation # others \<Rightarrow>
               (case reservation of
                  [] \<Rightarrow> Inl (''instance '' @ instanceID @ '' not found'')
                | instance # remaining \<Rightarrow> Inr (convertEC2Instance c instance (clock 0)))))"

text \<open>
  The collaborator a handler holds while a request is served: its reads are those of
  the client over the backing state, with the clock readings of that request; the
  actions of the tools, which \<^verbatim>\<open>client.go\<close> does not have, are those of \<open>actions\<close>.
\<close>

definition serving :: "Client \<Rightarrow> clock \<Rightarrow> awsClient \<Rightarrow> awsClient" where
  "serving c clock actions =
     actions\<lparr>ListEC2Instances := Client_ListEC2Instances c clock,
             GetEC2Instance := Client_GetEC2Instance c clock\<rparr>"

section \<open>The resource registry\<close>
















section \<open>The transport loop\<close>

text \<open>
  The MCP server of the library as \<^verbatim>\<open>Start\<close> uses it: \<^verbatim>\<open>HandleMessage\<close> answers a line with a
  response or with nil, and \<^verbatim>\<open>json.Marshal\<close> encodes a response. \<open>'m\<close> is the type of
  responses.
\<close>

record 'm mcpServer =
  HandleMessage :: "string \<Rightarrow> 'm option"
  Marshal :: "'m \<Rightarrow> error + string"

text \<open>What the loop has done so far: the lines it handed to \<^verbatim>\<open>HandleMessage\<close> and the
  writes it made to standard output, both in order.\<close>

record stdio =
  dispatched :: "string list"
  stdout :: "string list"

text \<open>
  The input is the sequence of lines \<^verbatim>\<open>scanner.Scan\<close> delivers, each with the state of
  \<^verbatim>\<open>ctx.Done()\<close> at the \<^verbatim>\<open>select\<close> that follows it (\<open>True\<close>: closed), and the value of
  \<^verbatim>\<open>scanner.Err()\<close> once \<^verbatim>\<open>Scan\<close> has returned false. \<open>ctx_err\<close> is \<^verbatim>\<open>ctx.Err()\<close>.
\<close>

fun Start_loop ::
  "'m mcpServer \<Rightarrow> error \<Rightarrow> (string \<times> bool) list \<Rightarrow> error option \<Rightarrow> stdio
     \<Rightarrow> error option \<times> stdio" where
  "Start_loop srv ctx_err [] scan_err io = (scan_err, io)"
| "Start_loop srv ctx_err ((line, done) # rest) scan_err io =
     (if done then (Some ctx_err, io)
      else if line = [] then Start_loop srv ctx_err rest scan_err io
      else
        let io = io\<lparr>dispatched := dispatched io @ [line]\<rparr> in
        case HandleMessage srv line of
          None \<Rightarrow> Start_loop srv ctx_err rest scan_err io
        | Some response \<Rightarrow>
            (case Marshal srv response of
               Inl err \<Rightarrow> Start_loop srv ctx_err rest scan_err io
             | Inr responseBytes \<Rightarrow>
                 Start_loop srv ctx_err rest scan_err
                   (io\<lparr>stdout := stdout io @ [responseBytes, [CHR 0x0A]]\<rparr>)))"

definition Start ::
  "'m mcpServer \<Rightarrow> error \<Rightarrow> (string \<times> bool) list \<Rightarrow> error option \<Rightarrow> error option \<times> stdio" where
  "Start srv ctx_err events scan_err =
     Start_loop srv ctx_err events scan_err \<lparr>dispatched = [], stdout = []\<rparr>"

section \<open>A concrete runtime and collaborator\<close>

text \<open>
  A small encoder standing in for \<^verbatim>\<open>json.MarshalIndent\<close> where the model is run on
  concrete inputs: it writes the value without quoting, indentation or key order.
\<close>

fun demo_render :: "iface \<Rightarrow> string" where
  "demo_render VNil = ''null''"
| "demo_render (VBool b) = (if b then ''true'' else ''false'')"
| "demo_render (VInt i) = ''<int>''"
| "demo_render (VFloat x) = ''<float>''"
| "demo_render (VString s) = s"
| "demo_render (VList xs) = ''['' @ concat (map (\<lambda>x. demo_render x @ '','') xs) @ '']''"
| "demo_render (VMap kvs) =
     ''{'' @ concat (map (\<lambda>kv. fst kv @ '':'' @ demo_render (snd kv) @ '','') kvs) @ ''}''"

definition demo_runtime :: runtime where
  "demo_runtime = \<lparr>MarshalIndent = (\<lambda>v. Inr (demo_render v)), Now = ''2025-06-01T12:00:00Z''\<rparr>"

definition demo_instance :: AWSResource where
  "demo_instance =
     \<lparr>ID = ''i-12345'', Type = ''ec2-instance'', Region = ''us-west-2'', State = ''running'',
      Tags = [(''Name'', ''web'')],
      Details = [(''instanceType'', VString ''t3.micro'')],
      LastSeen = ''2025-06-01T11:59:00Z''\<rparr>"

text \<open>A collaborator that knows one instance, refuses the image \<^verbatim>\<open>ami-bad\<close> and fails
  every action on an instance it does not know.\<close>

definition demo_client :: awsClient where
  "demo_client =
     \<lparr>ListEC2Instances = Inr [demo_instance],
      GetEC2Instance = (\<lambda>instanceID.
        if instanceID = ''i-12345'' then Inr demo_instance
        else Inl (''instance '' @ instanceID @ '' not found'')),
      CreateEC2Instance = (\<lambda>params.
        if ImageID params = ''ami-bad'' then Inl ''InvalidAMIID.NotFound''
        else Inr (demo_instance\<lparr>ID := ''i-67890'', State := ''pending''\<rparr>)),
      StartEC2Instance = (\<lambda>instanceID.
        if instanceID = ''i-12345'' then None else Some ''InvalidInstanceID.NotFound''),
      StopEC2Instance = (\<lambda>instanceID.
        if instanceID = ''i-12345'' then None else Some ''InvalidInstanceID.NotFound''),
      TerminateEC2Instance = (\<lambda>instanceID.
        if instanceID = ''i-12345'' then None else Some ''InvalidInstanceID.NotFound'')\<rparr>"

text \<open>A server that answers every line but \<^verbatim>\<open>notify\<close> by echoing it, and an encoder
  that fails on the response \<^verbatim>\<open>bad\<close>.\<close>

definition demo_server :: "string mcpServer" where
  "demo_server =
     \<lparr>HandleMessage = (\<lambda>line. if line = ''notify'' then None else Some line),
      Marshal = (\<lambda>response. if response = ''bad'' then Inl ''json: error'' else Inr response)\<rparr>"

text \<open>A second collaborator, which answers reads as \<^const>\<open>demo_client\<close> does and lets every
  start succeed.\<close>

definition demo_client_later :: awsClient where
  "demo_client_later = demo_client\<lparr>StartEC2Instance := (\<lambda>instanceID. None)\<rparr>"

text \<open>A backing state with the one instance \<^verbatim>\<open>i-12345\<close>, and the clocks of two requests
  made five seconds apart.\<close>

definition demo_ec2_instance :: ec2Instance where
  "demo_ec2_instance =
     \<lparr>InstanceId = Some ''i-12345'', InstanceTypeName = ''t3.micro'', StateName = ''running'',
      TagList = [(Some ''Name'', Some ''web'')],
      Placement = VMap [(''AvailabilityZone'', VString ''us-west-2a'')],
      LaunchTime = VString ''2025-05-01T08:00:00Z'',
      PublicIpAddress = None, PrivateIpAddress = Some ''10.0.0.5''\<rparr>"

definition demo_ec2 :: Client where
  "demo_ec2 =
     \<lparr>cfgRegion = ''us-west-2'',
      DescribeInstances = (\<lambda>ids.
        if ids = [] \<or> ids = [''i-12345''] then Inr [[demo_ec2_instance]]
        else Inl ''InvalidInstanceID.NotFound'')\<rparr>"

definition demo_clock_first :: clock where
  "demo_clock_first k = ''2025-06-01T12:00:00Z''"

definition demo_clock_second :: clock where
  "demo_clock_second k = ''2025-06-01T12:00:05Z''"

text \<open>The clock of a request made within the same second as the first, and a runtime
  whose own clock reads five seconds later.\<close>

definition demo_clock_same_second :: clock where
  "demo_clock_same_second k = (if k = 0 then ''2025-06-01T12:00:00Z'' else ''2025-06-01T12:00:01Z'')"

definition demo_runtime_later :: runtime where
  "demo_runtime_later = demo_runtime\<lparr>Now := ''2025-06-01T12:00:05Z''\<rparr>"

section \<open>Properties of the tool handlers\<close>

subsection \<open>The registry and the type assertion\<close>

lemma registered_names:
  "(name, params) \<in> set registerTools \<Longrightarrow>
     name = ''create-ec2-instance'' \<and> params = [(''imageId'', True), (''instanceType'', True), (''keyName'', False),
          (''securityGroupId'', False), (''subnetId'', False), (''name'', False)]
   \<or> name = ''start-ec2-instance'' \<and> params = [(''instanceId'', True)]
   \<or> name = ''stop-ec2-instance'' \<and> params = [(''instanceId'', True)]
   \<or> name = ''terminate-ec2-instance'' \<and> params = [(''instanceId'', True)]"
  by (simp add: registerTools_def)

lemma registered_cases:
  assumes "(name, params) \<in> set registerTools"
  obtains
      (create) "name = ''create-ec2-instance''" "params = [(''imageId'', True), (''instanceType'', True), (''keyName'', False),
          (''securityGroupId'', False), (''subnetId'', False), (''name'', False)]"
    | (start) "name = ''start-ec2-instance''" "params = [(''instanceId'', True)]"
    | (stop) "name = ''stop-ec2-instance''" "params = [(''instanceId'', True)]"
    | (terminate) "name = ''terminate-ec2-instance''" "params = [(''instanceId'', True)]"
  using registered_names[OF assms] by (elim disjE conjE)

lemma assert_string_simps [simp]:
  "assert_string None = ([], False)"
  "assert_string (Some (VString s)) = (s, True)"
  "assert_string (Some VNil) = ([], False)"
  "assert_string (Some (VBool b)) = ([], False)"
  "assert_string (Some (VInt i)) = ([], False)"
  "assert_string (Some (VFloat x)) = ([], False)"
  "assert_string (Some (VList xs)) = ([], False)"
  "assert_string (Some (VMap kvs)) = ([], False)"
  by (simp_all add: assert_string_def)

lemma assert_string_not_string:
  "(\<And>s. v \<noteq> VString s) \<Longrightarrow> assert_string (Some v) = ([], False)"
  by (cases v) auto

lemma assert_string_invalid:
  "\<not> non_empty_string arguments p \<Longrightarrow> (case assert_string (arguments p) of (s, ok) \<Rightarrow> \<not> ok \<or> s = [])"
  by (auto simp: non_empty_string_def assert_string_def split: option.splits iface.splits)

lemma assert_string_valid:
  "non_empty_string arguments p \<Longrightarrow> \<exists>s. s \<noteq> [] \<and> assert_string (arguments p) = (s, True)"
  by (auto simp: non_empty_string_def assert_string_def split: option.splits iface.splits)

lemma create_imageId_invalid:
  "\<not> non_empty_string arguments ''imageId'' \<Longrightarrow>
   createEC2Instance rt c arguments = ([], createErrorResponse rt ''imageId is required'')"
  using assert_string_invalid[of arguments "''imageId''"]
  by (auto simp: createEC2Instance_def split: prod.splits)

lemma create_instanceType_invalid:
  "non_empty_string arguments ''imageId'' \<Longrightarrow> \<not> non_empty_string arguments ''instanceType'' \<Longrightarrow>
   createEC2Instance rt c arguments = ([], createErrorResponse rt ''instanceType is required'')"
  using assert_string_invalid[of arguments "''instanceType''"] assert_string_valid[of arguments "''imageId''"]
  by (auto simp: createEC2Instance_def split: prod.splits)

lemma start_invalid:
  "\<not> non_empty_string arguments ''instanceId'' \<Longrightarrow>
   startEC2Instance rt c arguments = ([], createErrorResponse rt ''instanceId is required'')"
  using assert_string_invalid[of arguments "''instanceId''"]
  by (auto simp: startEC2Instance_def split: prod.splits)

lemma stop_invalid:
  "\<not> non_empty_string arguments ''instanceId'' \<Longrightarrow>
   stopEC2Instance rt c arguments = ([], createErrorResponse rt ''instanceId is required'')"
  using assert_string_invalid[of arguments "''instanceId''"]
  by (auto simp: stopEC2Instance_def split: prod.splits)

lemma terminate_invalid:
  "\<not> non_empty_string arguments ''instanceId'' \<Longrightarrow>
   terminateEC2Instance rt c arguments = ([], createErrorResponse rt ''instanceId is required'')"
  using assert_string_invalid[of arguments "''instanceId''"]
  by (auto simp: terminateEC2Instance_def split: prod.splits)

lemma first_invalid_required:
  assumes reg: "(name, params) \<in> set registerTools"
      and req: "(p, True) \<in> set params"
      and bad: "\<not> non_empty_string arguments p"
      and before: "\<forall>q \<in> set (required_before params p). non_empty_string arguments q"
    shows "CallTool rt c name arguments = ([], createErrorResponse rt (p @ '' is required''))"
proof -
  from reg show ?thesis
  proof (cases rule: registered_cases)
    case create
    from req create(2) have "p = ''imageId'' \<or> p = ''instanceType''" by simp
    then show ?thesis
    proof
      assume p: "p = ''imageId''"
      with bad show ?thesis using create(1) by (simp add: CallTool_def create_imageId_invalid)
    next
      assume p: "p = ''instanceType''"
      with before create(2) have "non_empty_string arguments ''imageId''"
        by (simp add: required_before_def)
      with bad p show ?thesis using create(1) by (simp add: CallTool_def create_instanceType_invalid)
    qed
  next
    case start
    with req have "p = ''instanceId''" by simp
    with bad start(1) show ?thesis by (simp add: CallTool_def start_invalid)
  next
    case stop
    with req have "p = ''instanceId''" by simp
    with bad stop(1) show ?thesis by (simp add: CallTool_def stop_invalid)
  next
    case terminate
    with req have "p = ''instanceId''" by simp
    with bad terminate(1) show ?thesis by (simp add: CallTool_def terminate_invalid)
  qed
qed


lemma some_invalid_required:
  assumes reg: "(name, params) \<in> set registerTools"
      and bad: "\<not> validation_passes params arguments"
    shows "\<exists>q. (q, True) \<in> set params \<and> \<not> non_empty_string arguments q \<and>
             CallTool rt c name arguments = ([], createErrorResponse rt (q @ '' is required''))"
  using reg
proof (cases rule: registered_cases)
  case create
  show ?thesis
  proof (cases "non_empty_string arguments ''imageId''")
    case False
    have "(''imageId'', True) \<in> set params" using create(2) by simp
    moreover have "CallTool rt c name arguments = ([], createErrorResponse rt (''imageId'' @ '' is required''))"
      using False create(1) by (simp add: CallTool_def create_imageId_invalid)
    ultimately show ?thesis using False by blast
  next
    case True
    with bad create(2) have no: "\<not> non_empty_string arguments ''instanceType''"
      by (simp add: validation_passes_def)
    have "(''instanceType'', True) \<in> set params" using create(2) by simp
    moreover have "CallTool rt c name arguments = ([], createErrorResponse rt (''instanceType'' @ '' is required''))"
      using True no create(1) by (simp add: CallTool_def create_instanceType_invalid)
    ultimately show ?thesis using no by blast
  qed
next
  case start
  from bad start(2) have no: "\<not> non_empty_string arguments ''instanceId''"
    by (simp add: validation_passes_def)
  have "(''instanceId'', True) \<in> set params" using start(2) by simp
  moreover have "CallTool rt c name arguments = ([], createErrorResponse rt (''instanceId'' @ '' is required''))"
    using no start(1) by (simp add: CallTool_def start_invalid)
  ultimately show ?thesis using no by blast
next
  case stop
  from bad stop(2) have no: "\<not> non_empty_string arguments ''instanceId''"
    by (simp add: validation_passes_def)
  have "(''instanceId'', True) \<in> set params" using stop(2) by simp
  moreover have "CallTool rt c name arguments = ([], createErrorResponse rt (''instanceId'' @ '' is required''))"
    using no stop(1) by (simp add: CallTool_def stop_invalid)
  ultimately show ?thesis using no by blast
next
  case terminate
  from bad terminate(2) have no: "\<not> non_empty_string arguments ''instanceId''"
    by (simp add: validation_passes_def)
  have "(''instanceId'', True) \<in> set params" using terminate(2) by simp
  moreover have "CallTool rt c name arguments = ([], createErrorResponse rt (''instanceId'' @ '' is required''))"
    using no terminate(1) by (simp add: CallTool_def terminate_invalid)
  ultimately show ?thesis using no by blast
qed

lemma required_invalid_fails_validation:
  "(p, True) \<in> set params \<Longrightarrow> \<not> non_empty_string arguments p \<Longrightarrow> \<not> validation_passes params arguments"
  by (auto simp: validation_passes_def list_all_iff)


subsection \<open>Unknown tool names\<close>

text \<open>
  C1 (as the code has it). For every tool name that is not in the tool registry and for
  any arguments, \<^const>\<open>CallTool\<close> returns no result but the Go error whose text is
  \<open>unknown tool: <name>\<close>, and asks nothing of the collaborator. The unit test of the
  handler expects this error and a nil result.
\<close>

theorem CallTool_unknown_tool_is_error:
  assumes "name \<notin> fst ` set registerTools"
  shows "CallTool rt c name arguments = ([], Inl (''unknown tool: '' @ name))"
  using assms by (simp add: registerTools_def CallTool_def)

theorem CallTool_unknown_tool_is_error_witness:
  "''reboot-ec2-instance'' \<notin> fst ` set registerTools \<and>
   CallTool demo_runtime demo_client ''reboot-ec2-instance'' [''instanceId'' \<mapsto> VString ''i-12345'']
     = ([], Inl ''unknown tool: reboot-ec2-instance'')"
proof -
  have h: "''reboot-ec2-instance'' \<notin> fst ` set registerTools"
    by (simp add: registerTools_def)
  from CallTool_unknown_tool_is_error [OF h, of demo_runtime demo_client "[''instanceId'' \<mapsto> VString ''i-12345'']"] h
  show ?thesis by simp
qed

text \<open>
  The claim as written, that an unknown tool name gives a successful result carrying a
  failure payload, fails on the input of the unit test: the outcome is an error, not a
  result.
\<close>

theorem CallTool_unknown_tool_counterexample:
  "snd (CallTool demo_runtime demo_client ''unknown-tool'' Map.empty)
     = Inl ''unknown tool: unknown-tool'' \<and>
   snd (CallTool demo_runtime demo_client ''unknown-tool'' Map.empty)
     \<noteq> createErrorResponse demo_runtime ''unknown tool: unknown-tool''"
  by (simp add: CallTool_def createErrorResponse_def)

subsection \<open>Required parameters\<close>

text \<open>
  C3 (as the code has it). For a registered tool and a required parameter \<open>p\<close> of it whose
  key is absent from the arguments or bound to the empty string, the call returns a
  failure \<open><q> is required\<close> for a required parameter \<open>q\<close> that does not pass validation and
  the collaborator is not asked anything; and when every required parameter declared
  before \<open>p\<close> is bound to a non-empty string, the failure names \<open>p\<close> itself.
\<close>

theorem required_parameter_absent_or_empty:
  assumes reg: "(name, params) \<in> set registerTools"
      and req: "(p, True) \<in> set params"
      and bad: "arguments p = None \<or> arguments p = Some (VString [])"
    shows "(\<exists>q. (q, True) \<in> set params \<and> \<not> non_empty_string arguments q \<and>
              CallTool rt c name arguments = ([], createErrorResponse rt (q @ '' is required''))) \<and>
           ((\<forall>q \<in> set (required_before params p). non_empty_string arguments q) \<longrightarrow>
              CallTool rt c name arguments = ([], createErrorResponse rt (p @ '' is required'')))"
proof -
  from bad have no: "\<not> non_empty_string arguments p"
    by (auto simp: non_empty_string_def)
  show ?thesis
    using some_invalid_required[OF reg required_invalid_fails_validation[OF req no]]
          first_invalid_required[OF reg req no]
    by blast
qed

theorem required_parameter_absent_or_empty_witness:
  "(''create-ec2-instance'',
      [(''imageId'', True), (''instanceType'', True), (''keyName'', False),
       (''securityGroupId'', False), (''subnetId'', False), (''name'', False)]) \<in> set registerTools \<and>
   [''imageId'' \<mapsto> VString ''ami-12345678''] ''instanceType'' = None \<and>
   required_before
        [(''imageId'', True), (''instanceType'', True), (''keyName'', False),
         (''securityGroupId'', False), (''subnetId'', False), (''name'', False)] ''instanceType''
     = [''imageId''] \<and>
   non_empty_string [''imageId'' \<mapsto> VString ''ami-12345678''] ''imageId'' \<and>
   CallTool demo_runtime demo_client ''create-ec2-instance'' [''imageId'' \<mapsto> VString ''ami-12345678'']
     = ([], createErrorResponse demo_runtime ''instanceType is required'')"
proof -
  let ?ps = "[(''imageId'', True), (''instanceType'', True), (''keyName'', False),
       (''securityGroupId'', False), (''subnetId'', False), (''name'', False)]"
  let ?args = "[''imageId'' \<mapsto> VString ''ami-12345678'']"
  have h1: "(''create-ec2-instance'', ?ps) \<in> set registerTools"
    by (simp add: registerTools_def)
  have h2: "(''instanceType'', True) \<in> set ?ps" by simp
  have h3: "?args ''instanceType'' = None \<or> ?args ''instanceType'' = Some (VString [])" by simp
  have h4: "\<forall>q \<in> set (required_before ?ps ''instanceType''). non_empty_string ?args q"
    by (simp add: required_before_def non_empty_string_def)
  from required_parameter_absent_or_empty
         [where arguments = ?args and p = "''instanceType''" and rt = demo_runtime and c = demo_client,
          OF h1 h2 h3] h4
  have "CallTool demo_runtime demo_client ''create-ec2-instance'' ?args
          = ([], createErrorResponse demo_runtime (''instanceType'' @ '' is required''))"
    by blast
  moreover have "required_before ?ps ''instanceType'' = [''imageId'']"
    by (simp add: required_before_def)
  moreover have "non_empty_string ?args ''imageId''"
    by (simp add: non_empty_string_def)
  moreover have "?args ''instanceType'' = None" by simp
  ultimately show ?thesis using h1 by simp
qed

text \<open>
  The claim as written fails where an earlier required parameter is missing too: with
  no arguments at all, \<open>instanceType\<close> is absent, yet the failure names \<open>imageId\<close>.
\<close>

theorem required_parameter_absent_counterexample:
  "Map.empty ''instanceType'' = (None :: iface option) \<and>
   CallTool demo_runtime demo_client ''create-ec2-instance'' Map.empty
     = ([], createErrorResponse demo_runtime ''imageId is required'') \<and>
   CallTool demo_runtime demo_client ''create-ec2-instance'' Map.empty
     \<noteq> ([], createErrorResponse demo_runtime ''instanceType is required'')"
  by (simp add: CallTool_def createEC2Instance_def createErrorResponse_def
        marshal_ignoring_error_def demo_runtime_def)

lemma non_empty_string_cong:
  "a p = b p \<Longrightarrow> non_empty_string a p = non_empty_string b p"
  by (simp add: non_empty_string_def)

lemma CallTool_required_invalid_cong:
  assumes reg: "(name, params) \<in> set registerTools"
      and req: "(p, True) \<in> set params"
      and a: "\<not> non_empty_string a p"
      and b: "\<not> non_empty_string b p"
      and same: "\<And>q. q \<noteq> p \<Longrightarrow> a q = b q"
    shows "CallTool rt c name a = CallTool rt c name b"
  using reg
proof (cases rule: registered_cases)
  case create
  from req create(2) have "p = ''imageId'' \<or> p = ''instanceType''" by simp
  then show ?thesis
  proof
    assume "p = ''imageId''"
    with a b create(1) show ?thesis by (simp add: CallTool_def create_imageId_invalid)
  next
    assume p: "p = ''instanceType''"
    then have "a ''imageId'' = b ''imageId''" using same[of "''imageId''"] by simp
    then have eq: "non_empty_string a ''imageId'' = non_empty_string b ''imageId''"
      by (simp add: non_empty_string_def)
    show ?thesis
    proof (cases "non_empty_string a ''imageId''")
      case True
      with eq a b p create(1) show ?thesis
        by (simp add: CallTool_def create_instanceType_invalid)
    next
      case False
      with eq create(1) show ?thesis
        by (simp add: CallTool_def create_imageId_invalid)
    qed
  qed
next
  case start
  with req have "p = ''instanceId''" by simp
  with a b start(1) show ?thesis by (simp add: CallTool_def start_invalid)
next
  case stop
  with req have "p = ''instanceId''" by simp
  with a b stop(1) show ?thesis by (simp add: CallTool_def stop_invalid)
next
  case terminate
  with req have "p = ''instanceId''" by simp
  with a b terminate(1) show ?thesis by (simp add: CallTool_def terminate_invalid)
qed

lemma not_string_invalid:
  "arguments p = Some v \<Longrightarrow> \<forall>s. v \<noteq> VString s \<Longrightarrow> \<not> non_empty_string arguments p"
  by (cases v) (auto simp: non_empty_string_def)

text \<open>
  C10 (as the code has it). For a registered tool and a required parameter \<open>p\<close> of it that
  is bound to a value that is not a string, the call returns what it returns with the
  key removed: a failure \<open><q> is required\<close> for a required parameter \<open>q\<close> that does not
  pass validation, with nothing asked of the collaborator; the failure names \<open>p\<close> itself
  when every required parameter declared before \<open>p\<close> is bound to a non-empty string.
\<close>

theorem required_parameter_not_a_string:
  assumes reg: "(name, params) \<in> set registerTools"
      and req: "(p, True) \<in> set params"
      and bound: "arguments p = Some v"
      and ns: "\<forall>s. v \<noteq> VString s"
    shows "CallTool rt c name arguments = CallTool rt c name (arguments(p := None)) \<and>
           (\<exists>q. (q, True) \<in> set params \<and> \<not> non_empty_string arguments q \<and>
              CallTool rt c name arguments = ([], createErrorResponse rt (q @ '' is required''))) \<and>
           ((\<forall>q \<in> set (required_before params p). non_empty_string arguments q) \<longrightarrow>
              CallTool rt c name arguments = ([], createErrorResponse rt (p @ '' is required'')))"
proof -
  from bound ns have no: "\<not> non_empty_string arguments p" by (rule not_string_invalid)
  have no': "\<not> non_empty_string (arguments(p := None)) p"
    by (simp add: non_empty_string_def)
  have "CallTool rt c name arguments = CallTool rt c name (arguments(p := None))"
    by (rule CallTool_required_invalid_cong[OF reg req no no']) simp
  then show ?thesis
    using some_invalid_required[OF reg required_invalid_fails_validation[OF req no]]
          first_invalid_required[OF reg req no]
    by blast
qed

theorem required_parameter_not_a_string_witness:
  "(''create-ec2-instance'', [(''imageId'', True), (''instanceType'', True), (''keyName'', False),
       (''securityGroupId'', False), (''subnetId'', False), (''name'', False)]) \<in> set registerTools \<and>
   [''imageId'' \<mapsto> VString ''ami-12345678'', ''instanceType'' \<mapsto> VInt 5] ''instanceType''
     = Some (VInt 5) \<and>
   (\<forall>s. VInt 5 \<noteq> VString s) \<and>
   required_before [(''imageId'', True), (''instanceType'', True), (''keyName'', False),
       (''securityGroupId'', False), (''subnetId'', False), (''name'', False)] ''instanceType'' = [''imageId''] \<and>
   non_empty_string [''imageId'' \<mapsto> VString ''ami-12345678'', ''instanceType'' \<mapsto> VInt 5] ''imageId'' \<and>
   CallTool demo_runtime demo_client ''create-ec2-instance''
       [''imageId'' \<mapsto> VString ''ami-12345678'', ''instanceType'' \<mapsto> VInt 5]
     = CallTool demo_runtime demo_client ''create-ec2-instance''
         ([''imageId'' \<mapsto> VString ''ami-12345678'', ''instanceType'' \<mapsto> VInt 5]
            (''instanceType'' := None)) \<and>
   CallTool demo_runtime demo_client ''create-ec2-instance''
       [''imageId'' \<mapsto> VString ''ami-12345678'', ''instanceType'' \<mapsto> VInt 5]
     = ([], createErrorResponse demo_runtime ''instanceType is required'')"
proof -
  let ?ps = "[(''imageId'', True), (''instanceType'', True), (''keyName'', False),
       (''securityGroupId'', False), (''subnetId'', False), (''name'', False)]"
  let ?args = "[''imageId'' \<mapsto> VString ''ami-12345678'', ''instanceType'' \<mapsto> VInt 5]"
  have h1: "(''create-ec2-instance'', ?ps) \<in> set registerTools"
    by (simp add: registerTools_def)
  have h2: "(''instanceType'', True) \<in> set ?ps" by simp
  have h3: "?args ''instanceType'' = Some (VInt 5)" by simp
  have h4: "\<forall>s. VInt 5 \<noteq> VString s" by simp
  have h5: "required_before ?ps ''instanceType'' = [''imageId'']"
    by (simp add: required_before_def)
  have h6: "non_empty_string ?args ''imageId''"
    by (simp add: non_empty_string_def)
  from h5 h6 have h7: "\<forall>q \<in> set (required_before ?ps ''instanceType''). non_empty_string ?args q"
    by simp
  note t = required_parameter_not_a_string
         [where arguments = ?args and p = "''instanceType''" and rt = demo_runtime and c = demo_client,
          OF h1 h2 h3 h4]
  from t have "CallTool demo_runtime demo_client ''create-ec2-instance'' ?args
          = CallTool demo_runtime demo_client ''create-ec2-instance'' (?args(''instanceType'' := None))"
    by (rule conjunct1)
  moreover from t h7 have "CallTool demo_runtime demo_client ''create-ec2-instance'' ?args
          = ([], createErrorResponse demo_runtime (''instanceType'' @ '' is required''))"
    by (elim conjE impE)
  ultimately show ?thesis using h1 h3 h4 h5 h6 by simp
qed

text \<open>
  The claim as written fails where an earlier required parameter is missing: with
  \<open>instanceType\<close> bound to a boolean and no \<open>imageId\<close>, the failure names \<open>imageId\<close>.
\<close>

theorem required_parameter_not_a_string_counterexample:
  "[''instanceType'' \<mapsto> VBool True] ''instanceType'' = Some (VBool True) \<and>
   CallTool demo_runtime demo_client ''create-ec2-instance'' [''instanceType'' \<mapsto> VBool True]
     = ([], createErrorResponse demo_runtime ''imageId is required'') \<and>
   CallTool demo_runtime demo_client ''create-ec2-instance'' [''instanceType'' \<mapsto> VBool True]
     \<noteq> ([], createErrorResponse demo_runtime ''instanceType is required'')"
  by (simp add: CallTool_def createEC2Instance_def createErrorResponse_def
        marshal_ignoring_error_def demo_runtime_def)

subsection \<open>Optional parameters\<close>

lemma optional_string_upd:
  "optional_string (a(p \<mapsto> v)) k = (if k = p then fst (assert_string (Some v)) else optional_string a k)"
  by (simp add: optional_string_def)

lemma optional_string_del:
  "optional_string (a(p := None)) k = (if k = p then [] else optional_string a k)"
  by (simp add: optional_string_def)

lemma non_empty_string_assert:
  "non_empty_string arguments p \<longleftrightarrow> snd (assert_string (arguments p)) \<and> fst (assert_string (arguments p)) \<noteq> []"
  by (auto simp: non_empty_string_def assert_string_def split: option.splits iface.splits)

lemma createEC2Instance_valid:
  assumes "non_empty_string arguments ''imageId''" "non_empty_string arguments ''instanceType''"
  shows "createEC2Instance rt c arguments =
           ([CallCreate (create_params arguments)],
            case CreateEC2Instance c (create_params arguments) of
              Inl err \<Rightarrow> createErrorResponse rt (''failed to create EC2 instance: '' @ err)
            | Inr resource \<Rightarrow>
                createSuccessResponse rt ''EC2 instance created successfully''
                    [(''instanceId'', VString (ID resource)),
                     (''state'', VString (State resource)),
                     (''instanceType'', index_iface (Details resource) ''instanceType'')])"
proof -
  from assms(1) obtain i where i: "i \<noteq> []" "assert_string (arguments ''imageId'') = (i, True)"
    using assert_string_valid by blast
  from assms(2) obtain t where t: "t \<noteq> []" "assert_string (arguments ''instanceType'') = (t, True)"
    using assert_string_valid by blast
  show ?thesis
    by (simp add: createEC2Instance_def create_params_def i t Let_def split: sum.splits)
qed

lemma create_params_optional_not_string:
  assumes p: "p = ''keyName'' \<or> p = ''securityGroupId'' \<or> p = ''subnetId'' \<or> p = ''name''"
      and ns: "\<forall>s. v \<noteq> VString s"
    shows "create_params (arguments(p \<mapsto> v)) = create_params (arguments(p := None))"
proof -
  have e: "assert_string (Some v) = ([], False)" using ns by (simp add: assert_string_not_string)
  from p show ?thesis
    by (elim disjE) (simp_all add: create_params_def optional_string_upd optional_string_del e)
qed

lemma create_optional_not_string:
  assumes p: "p = ''keyName'' \<or> p = ''securityGroupId'' \<or> p = ''subnetId'' \<or> p = ''name''"
      and ns: "\<forall>s. v \<noteq> VString s"
    shows "createEC2Instance rt c (arguments(p \<mapsto> v)) = createEC2Instance rt c (arguments(p := None))"
proof -
  let ?a = "arguments(p \<mapsto> v)" and ?b = "arguments(p := None)"
  from p have i: "?a ''imageId'' = ?b ''imageId''" and t: "?a ''instanceType'' = ?b ''instanceType''"
    by (elim disjE; simp)+
  note ni = non_empty_string_cong[of ?a "''imageId''" ?b, OF i]
   and nt = non_empty_string_cong[of ?a "''instanceType''" ?b, OF t]
  show ?thesis
  proof (cases "non_empty_string ?a ''imageId''")
    case False
    with ni show ?thesis by (simp add: create_imageId_invalid)
  next
    case True
    note im = this
    show ?thesis
    proof (cases "non_empty_string ?a ''instanceType''")
      case False
      with im ni nt show ?thesis by (simp add: create_instanceType_invalid)
    next
      case True
      with im ni nt have "non_empty_string ?b ''imageId''" "non_empty_string ?b ''instanceType''"
        by simp_all
      from createEC2Instance_valid[OF im True] createEC2Instance_valid[OF this]
           create_params_optional_not_string[OF p ns]
      show ?thesis by simp
    qed
  qed
qed

text \<open>
  C6. For every registered tool and every optional parameter of it, a call with the
  parameter bound to a value that is not a string returns exactly what the call returns
  with the parameter absent: the same requests to the collaborator and the same result,
  so no validation failure comes of it.
\<close>

theorem optional_parameter_not_a_string:
  assumes reg: "(name, params) \<in> set registerTools"
      and opt: "(p, False) \<in> set params"
      and ns: "\<forall>s. v \<noteq> VString s"
    shows "CallTool rt c name (arguments(p \<mapsto> v)) = CallTool rt c name (arguments(p := None))"
  using reg
proof (cases rule: registered_cases)
  case create
  from opt create(2)
  have "p = ''keyName'' \<or> p = ''securityGroupId'' \<or> p = ''subnetId'' \<or> p = ''name''" by simp
  from create_optional_not_string[OF this ns] create(1) show ?thesis
    by (simp add: CallTool_def)
next
  case start with opt show ?thesis by simp
next
  case stop with opt show ?thesis by simp
next
  case terminate with opt show ?thesis by simp
qed


theorem optional_parameter_not_a_string_witness:
  "(''create-ec2-instance'', [(''imageId'', True), (''instanceType'', True), (''keyName'', False),
       (''securityGroupId'', False), (''subnetId'', False), (''name'', False)]) \<in> set registerTools \<and>
   (''keyName'', False) \<in> set [(''imageId'', True), (''instanceType'', True), (''keyName'', False),
       (''securityGroupId'', False), (''subnetId'', False), (''name'', False)] \<and>
   (\<forall>s. VInt 5 \<noteq> VString s) \<and>
   CallTool demo_runtime demo_client ''create-ec2-instance''
       ([''imageId'' \<mapsto> VString ''ami-12345678'', ''instanceType'' \<mapsto> VString ''t3.micro'']
          (''keyName'' \<mapsto> VInt 5))
     = CallTool demo_runtime demo_client ''create-ec2-instance''
       ([''imageId'' \<mapsto> VString ''ami-12345678'', ''instanceType'' \<mapsto> VString ''t3.micro'']
          (''keyName'' := None))"
proof -
  let ?ps = "[(''imageId'', True), (''instanceType'', True), (''keyName'', False),
       (''securityGroupId'', False), (''subnetId'', False), (''name'', False)]"
  have h1: "(''create-ec2-instance'', ?ps) \<in> set registerTools"
    by (simp add: registerTools_def)
  have h2: "(''keyName'', False) \<in> set ?ps" by simp
  have h3: "\<forall>s. VInt 5 \<noteq> VString s" by simp
  from optional_parameter_not_a_string [OF h1 h2 h3, of demo_runtime demo_client] h1 h2 h3
  show ?thesis by blast
qed

subsection \<open>Collaborator failures\<close>

lemma startEC2Instance_valid:
  assumes "non_empty_string arguments ''instanceId''"
  shows "\<exists>instanceID. startEC2Instance rt c arguments =
           ([CallStart instanceID],
            case StartEC2Instance c instanceID of
              Some err \<Rightarrow> createErrorResponse rt (''failed to start EC2 instance: '' @ err)
            | None \<Rightarrow> createSuccessResponse rt ''EC2 instance start initiated successfully''
                  [(''instanceId'', VString instanceID), (''action'', VString ''start'')])"
proof -
  from assms obtain i where i: "i \<noteq> []" "assert_string (arguments ''instanceId'') = (i, True)"
    using assert_string_valid by blast
  show ?thesis
    by (rule exI[of _ i]) (simp add: startEC2Instance_def i split: option.splits)
qed

lemma stopEC2Instance_valid:
  assumes "non_empty_string arguments ''instanceId''"
  shows "\<exists>instanceID. stopEC2Instance rt c arguments =
           ([CallStop instanceID],
            case StopEC2Instance c instanceID of
              Some err \<Rightarrow> createErrorResponse rt (''failed to stop EC2 instance: '' @ err)
            | None \<Rightarrow> createSuccessResponse rt ''EC2 instance stop initiated successfully''
                  [(''instanceId'', VString instanceID), (''action'', VString ''stop'')])"
proof -
  from assms obtain i where i: "i \<noteq> []" "assert_string (arguments ''instanceId'') = (i, True)"
    using assert_string_valid by blast
  show ?thesis
    by (rule exI[of _ i]) (simp add: stopEC2Instance_def i split: option.splits)
qed

lemma terminateEC2Instance_valid:
  assumes "non_empty_string arguments ''instanceId''"
  shows "\<exists>instanceID. terminateEC2Instance rt c arguments =
           ([CallTerminate instanceID],
            case TerminateEC2Instance c instanceID of
              Some err \<Rightarrow> createErrorResponse rt (''failed to terminate EC2 instance: '' @ err)
            | None \<Rightarrow> createSuccessResponse rt ''EC2 instance termination initiated successfully''
                  [(''instanceId'', VString instanceID), (''action'', VString ''terminate'')])"
proof -
  from assms obtain i where i: "i \<noteq> []" "assert_string (arguments ''instanceId'') = (i, True)"
    using assert_string_valid by blast
  show ?thesis
    by (rule exI[of _ i]) (simp add: terminateEC2Instance_def i split: option.splits)
qed

text \<open>What a call returns once validation has passed: one request to the collaborator,
  and a failure carrying its error or a success.\<close>

lemma CallTool_valid:
  assumes reg: "(name, params) \<in> set registerTools"
      and valid: "validation_passes params arguments"
    shows "\<exists>k. CallTool rt c name arguments =
             ([k], case call_error c k of
                     Some err \<Rightarrow> createErrorResponse rt (''failed to '' @ failure_action name @ '': '' @ err)
                   | None \<Rightarrow> snd (CallTool rt c name arguments)) \<and>
               (call_error c k = None \<longrightarrow>
                  (\<exists>message data. snd (CallTool rt c name arguments) = createSuccessResponse rt message data))"
  using reg
proof (cases rule: registered_cases)
  case create
  with valid have v: "non_empty_string arguments ''imageId''" "non_empty_string arguments ''instanceType''"
    by (simp_all add: validation_passes_def)
  show ?thesis
    apply (rule exI[of _ "CallCreate (create_params arguments)"])
    apply (simp add: CallTool_def create(1) createEC2Instance_valid[OF v] failure_action_def split: sum.splits)
    apply blast
    done
next
  case start
  with valid have v: "non_empty_string arguments ''instanceId''"
    by (simp add: validation_passes_def)
  from startEC2Instance_valid[OF v, of rt c] obtain i where
    i: "startEC2Instance rt c arguments =
           ([CallStart i],
            case StartEC2Instance c i of
              Some err \<Rightarrow> createErrorResponse rt (''failed to start EC2 instance: '' @ err)
            | None \<Rightarrow> createSuccessResponse rt ''EC2 instance start initiated successfully''
                  [(''instanceId'', VString i), (''action'', VString ''start'')])" by blast
  show ?thesis
    apply (rule exI[of _ "CallStart i"])
    apply (simp add: CallTool_def start(1) i failure_action_def split: option.splits)
    apply blast
    done
next
  case stop
  with valid have v: "non_empty_string arguments ''instanceId''"
    by (simp add: validation_passes_def)
  from stopEC2Instance_valid[OF v, of rt c] obtain i where
    i: "stopEC2Instance rt c arguments =
           ([CallStop i],
            case StopEC2Instance c i of
              Some err \<Rightarrow> createErrorResponse rt (''failed to stop EC2 instance: '' @ err)
            | None \<Rightarrow> createSuccessResponse rt ''EC2 instance stop initiated successfully''
                  [(''instanceId'', VString i), (''action'', VString ''stop'')])" by blast
  show ?thesis
    apply (rule exI[of _ "CallStop i"])
    apply (simp add: CallTool_def stop(1) i failure_action_def split: option.splits)
    apply blast
    done
next
  case terminate
  with valid have v: "non_empty_string arguments ''instanceId''"
    by (simp add: validation_passes_def)
  from terminateEC2Instance_valid[OF v, of rt c] obtain i where
    i: "terminateEC2Instance rt c arguments =
           ([CallTerminate i],
            case TerminateEC2Instance c i of
              Some err \<Rightarrow> createErrorResponse rt (''failed to terminate EC2 instance: '' @ err)
            | None \<Rightarrow> createSuccessResponse rt ''EC2 instance termination initiated successfully''
                  [(''instanceId'', VString i), (''action'', VString ''terminate'')])" by blast
  show ?thesis
    apply (rule exI[of _ "CallTerminate i"])
    apply (simp add: CallTool_def terminate(1) i failure_action_def split: option.splits)
    apply blast
    done
qed

lemma createErrorResponse_result:
  "createErrorResponse rt message =
     Inr \<lparr>Content = [\<lparr>ContentType = ''text'',
       Text = (case MarshalIndent rt
                 (VMap [(''success'', VBool False),
                        (''error'', VString message),
                        (''timestamp'', VString (Now rt))]) of
                 Inl err \<Rightarrow> []
               | Inr jsonData \<Rightarrow> jsonData)\<rparr>]\<rparr>"
  by (simp add: createErrorResponse_def marshal_ignoring_error_def)

lemma collaborator_failure_response:
  assumes reg: "(name, params) \<in> set registerTools"
      and valid: "validation_passes params arguments"
    shows "\<exists>k. fst (CallTool rt c name arguments) = [k] \<and>
             (\<forall>e. call_error c k = Some e \<longrightarrow>
                snd (CallTool rt c name arguments)
                  = createErrorResponse rt (''failed to '' @ failure_action name @ '': '' @ e))"
proof -
  from CallTool_valid[OF reg valid, of rt c] obtain k where
    k: "CallTool rt c name arguments =
             ([k], case call_error c k of
                     Some err \<Rightarrow> createErrorResponse rt (''failed to '' @ failure_action name @ '': '' @ err)
                   | None \<Rightarrow> snd (CallTool rt c name arguments))" by blast
  have "fst (CallTool rt c name arguments) = [k]" by (subst k) simp
  moreover have "\<forall>e. call_error c k = Some e \<longrightarrow>
                snd (CallTool rt c name arguments)
                  = createErrorResponse rt (''failed to '' @ failure_action name @ '': '' @ e)"
  proof (intro allI impI)
    fix e assume e: "call_error c k = Some e"
    show "snd (CallTool rt c name arguments)
                  = createErrorResponse rt (''failed to '' @ failure_action name @ '': '' @ e)"
      by (subst k) (simp add: e)
  qed
  ultimately show ?thesis by blast
qed

text \<open>
  C4. For every registered tool, when the arguments pass validation the handler makes
  one request to the collaborator, and if the collaborator answers it with an error
  \<open>e\<close> the call returns a result and no error, and the text of the result is the
  encoding of the map whose \<open>success\<close> is false and whose \<open>error\<close> is
  \<open>failed to <action>: \<close> followed by the whole text of \<open>e\<close>.
\<close>

theorem collaborator_failure_is_embedded:
  assumes reg: "(name, params) \<in> set registerTools"
      and valid: "validation_passes params arguments"
    shows "\<exists>k. fst (CallTool rt c name arguments) = [k] \<and>
             (\<forall>e. call_error c k = Some e \<longrightarrow>
                snd (CallTool rt c name arguments)
                  = Inr \<lparr>Content = [\<lparr>ContentType = ''text'',
                      Text = (case MarshalIndent rt
                                (VMap [(''success'', VBool False),
                                       (''error'', VString (''failed to '' @ failure_action name @ '': '' @ e)),
                                       (''timestamp'', VString (Now rt))]) of
                                Inl err \<Rightarrow> []
                              | Inr jsonData \<Rightarrow> jsonData)\<rparr>]\<rparr>)"
  using collaborator_failure_response[OF reg valid, of rt c]
  by (simp only: createErrorResponse_result)

theorem collaborator_failure_is_embedded_witness:
  "(''stop-ec2-instance'', [(''instanceId'', True)]) \<in> set registerTools \<and>
   validation_passes [(''instanceId'', True)] [''instanceId'' \<mapsto> VString ''i-99999''] \<and>
   fst (CallTool demo_runtime demo_client ''stop-ec2-instance'' [''instanceId'' \<mapsto> VString ''i-99999''])
     = [CallStop ''i-99999''] \<and>
   call_error demo_client (CallStop ''i-99999'') = Some ''InvalidInstanceID.NotFound'' \<and>
   MarshalIndent demo_runtime
       (VMap [(''success'', VBool False),
              (''error'', VString ''failed to stop EC2 instance: InvalidInstanceID.NotFound''),
              (''timestamp'', VString ''2025-06-01T12:00:00Z'')])
     = Inr ''{success:false,error:failed to stop EC2 instance: InvalidInstanceID.NotFound,timestamp:2025-06-01T12:00:00Z,}'' \<and>
   snd (CallTool demo_runtime demo_client ''stop-ec2-instance'' [''instanceId'' \<mapsto> VString ''i-99999''])
     = Inr \<lparr>Content = [\<lparr>ContentType = ''text'',
             Text = ''{success:false,error:failed to stop EC2 instance: InvalidInstanceID.NotFound,timestamp:2025-06-01T12:00:00Z,}''\<rparr>]\<rparr>"
proof -
  let ?args = "[''instanceId'' \<mapsto> VString ''i-99999'']"
  have h1: "(''stop-ec2-instance'', [(''instanceId'', True)]) \<in> set registerTools"
    by (simp add: registerTools_def)
  have h2: "validation_passes [(''instanceId'', True)] ?args"
    by (simp add: validation_passes_def non_empty_string_def)
  have h3: "call_error demo_client (CallStop ''i-99999'') = Some ''InvalidInstanceID.NotFound''"
    by (simp add: demo_client_def)
  have m: "MarshalIndent demo_runtime
       (VMap [(''success'', VBool False),
              (''error'', VString ''failed to stop EC2 instance: InvalidInstanceID.NotFound''),
              (''timestamp'', VString ''2025-06-01T12:00:00Z'')])
     = Inr ''{success:false,error:failed to stop EC2 instance: InvalidInstanceID.NotFound,timestamp:2025-06-01T12:00:00Z,}''"
    by (simp add: demo_runtime_def)
  from collaborator_failure_is_embedded [OF h1 h2, of demo_runtime demo_client]
  obtain k where k: "fst (CallTool demo_runtime demo_client ''stop-ec2-instance'' ?args) = [k]"
    and e: "\<forall>e. call_error demo_client k = Some e \<longrightarrow>
              snd (CallTool demo_runtime demo_client ''stop-ec2-instance'' ?args)
                = Inr \<lparr>Content = [\<lparr>ContentType = ''text'',
                    Text = (case MarshalIndent demo_runtime
                              (VMap [(''success'', VBool False),
                                     (''error'', VString (''failed to '' @ failure_action ''stop-ec2-instance'' @ '': '' @ e)),
                                     (''timestamp'', VString (Now demo_runtime))]) of
                              Inl err \<Rightarrow> []
                            | Inr jsonData \<Rightarrow> jsonData)\<rparr>]\<rparr>"
    by (elim exE conjE)
  have c: "fst (CallTool demo_runtime demo_client ''stop-ec2-instance'' ?args) = [CallStop ''i-99999'']"
    by (simp add: CallTool_def stopEC2Instance_def demo_client_def)
  with k have "k = CallStop ''i-99999''" by simp
  with e h3 have "snd (CallTool demo_runtime demo_client ''stop-ec2-instance'' ?args)
                = Inr \<lparr>Content = [\<lparr>ContentType = ''text'',
                    Text = (case MarshalIndent demo_runtime
                              (VMap [(''success'', VBool False),
                                     (''error'', VString (''failed to '' @ failure_action ''stop-ec2-instance'' @ '': '' @ ''InvalidInstanceID.NotFound'')),
                                     (''timestamp'', VString (Now demo_runtime))]) of
                              Inl err \<Rightarrow> []
                            | Inr jsonData \<Rightarrow> jsonData)\<rparr>]\<rparr>"
    by simp
  then have "snd (CallTool demo_runtime demo_client ''stop-ec2-instance'' ?args)
     = Inr \<lparr>Content = [\<lparr>ContentType = ''text'',
             Text = ''{success:false,error:failed to stop EC2 instance: InvalidInstanceID.NotFound,timestamp:2025-06-01T12:00:00Z,}''\<rparr>]\<rparr>"
    by (simp add: failure_action_def demo_runtime_def)
  with h1 h2 h3 c m show ?thesis by simp
qed

subsection \<open>Failures stay inside the result\<close>

lemma error_response_outcome:
  assumes "CallTool rt c name arguments = (calls, createErrorResponse rt message)"
  shows "\<exists>calls r. CallTool rt c name arguments = (calls, Inr r) \<and>
           (P calls \<longrightarrow>
              (\<exists>msg. r = \<lparr>Content = [\<lparr>ContentType = ''text'',
                                      Text = (case MarshalIndent rt
                                        (VMap [(''success'', VBool False),
                                               (''error'', VString msg),
                                               (''timestamp'', VString (Now rt))]) of
                                          Inl err \<Rightarrow> []
                                        | Inr jsonData \<Rightarrow> jsonData)\<rparr>]\<rparr>))"
proof (intro exI conjI impI)
  show "CallTool rt c name arguments =
          (calls, Inr \<lparr>Content = [\<lparr>ContentType = ''text'',
                                      Text = (case MarshalIndent rt
                                        (VMap [(''success'', VBool False),
                                               (''error'', VString message),
                                               (''timestamp'', VString (Now rt))]) of
                                          Inl err \<Rightarrow> []
                                        | Inr jsonData \<Rightarrow> jsonData)\<rparr>]\<rparr>)"
    using assms by (simp add: createErrorResponse_def marshal_ignoring_error_def)
  show "\<lparr>Content = [\<lparr>ContentType = ''text'',
                                      Text = (case MarshalIndent rt
                                        (VMap [(''success'', VBool False),
                                               (''error'', VString message),
                                               (''timestamp'', VString (Now rt))]) of
                                          Inl err \<Rightarrow> []
                                        | Inr jsonData \<Rightarrow> jsonData)\<rparr>]\<rparr>
       = \<lparr>Content = [\<lparr>ContentType = ''text'',
                                      Text = (case MarshalIndent rt
                                        (VMap [(''success'', VBool False),
                                               (''error'', VString message),
                                               (''timestamp'', VString (Now rt))]) of
                                          Inl err \<Rightarrow> []
                                        | Inr jsonData \<Rightarrow> jsonData)\<rparr>]\<rparr>" ..
qed

text \<open>
  C9. For each of the four registered tools \<^const>\<open>CallTool\<close> returns a result and the nil
  error, whatever the arguments and whatever the collaborator answers; when validation
  fails or the collaborator answers the request with an error, the one content item
  of the result is the text the encoder gives for the map with \<open>success\<close> false, a message
  under \<open>error\<close> and the clock's reading under \<open>timestamp\<close>.
\<close>

theorem CallTool_registered_returns_result:
  assumes reg: "(name, params) \<in> set registerTools"
  shows "\<exists>calls r. CallTool rt c name arguments = (calls, Inr r) \<and>
           ((\<not> validation_passes params arguments \<or> (\<exists>k \<in> set calls. call_error c k \<noteq> None)) \<longrightarrow>
              (\<exists>msg. r = \<lparr>Content = [\<lparr>ContentType = ''text'',
                                      Text = (case MarshalIndent rt
                                        (VMap [(''success'', VBool False),
                                               (''error'', VString msg),
                                               (''timestamp'', VString (Now rt))]) of
                                          Inl err \<Rightarrow> []
                                        | Inr jsonData \<Rightarrow> jsonData)\<rparr>]\<rparr>))"
proof (cases "validation_passes params arguments")
  case False
  from some_invalid_required[OF reg False, of rt c] obtain q where
    "CallTool rt c name arguments = ([], createErrorResponse rt (q @ '' is required''))" by blast
  then show ?thesis by (rule error_response_outcome)
next
  case True
  from CallTool_valid[OF reg True, of rt c] obtain k where
    k: "CallTool rt c name arguments =
             ([k], case call_error c k of
                     Some err \<Rightarrow> createErrorResponse rt (''failed to '' @ failure_action name @ '': '' @ err)
                   | None \<Rightarrow> snd (CallTool rt c name arguments))"
    and ok: "call_error c k = None \<longrightarrow>
                  (\<exists>message data. snd (CallTool rt c name arguments) = createSuccessResponse rt message data)"
    by (elim exE conjE)
  show ?thesis
  proof (cases "call_error c k")
    case None
    with ok obtain message data where
      "snd (CallTool rt c name arguments) = createSuccessResponse rt message data" by blast
    then obtain r where r: "snd (CallTool rt c name arguments) = Inr r"
      by (simp add: createSuccessResponse_def)
    have "CallTool rt c name arguments = ([k], Inr r)"
      by (subst k) (simp add: None r)
    with True None show ?thesis by simp
  next
    case (Some err)
    have "CallTool rt c name arguments =
            ([k], createErrorResponse rt (''failed to '' @ failure_action name @ '': '' @ err))"
      by (subst k) (simp add: Some)
    then show ?thesis by (rule error_response_outcome)
  qed
qed

theorem CallTool_registered_returns_result_witness:
  "(''start-ec2-instance'', [(''instanceId'', True)]) \<in> set registerTools \<and>
   \<not> validation_passes [(''instanceId'', True)] Map.empty \<and>
   MarshalIndent demo_runtime
       (VMap [(''success'', VBool False),
              (''error'', VString ''instanceId is required''),
              (''timestamp'', VString (Now demo_runtime))])
     = Inr ''{success:false,error:instanceId is required,timestamp:2025-06-01T12:00:00Z,}'' \<and>
   CallTool demo_runtime demo_client ''start-ec2-instance'' Map.empty
     = ([], Inr \<lparr>Content = [\<lparr>ContentType = ''text'',
                   Text = ''{success:false,error:instanceId is required,timestamp:2025-06-01T12:00:00Z,}''\<rparr>]\<rparr>)"
proof -
  have h1: "(''start-ec2-instance'', [(''instanceId'', True)]) \<in> set registerTools"
    by (simp add: registerTools_def)
  have h2: "\<not> validation_passes [(''instanceId'', True)] Map.empty"
    by (simp add: validation_passes_def non_empty_string_def)
  have m: "MarshalIndent demo_runtime
       (VMap [(''success'', VBool False),
              (''error'', VString ''instanceId is required''),
              (''timestamp'', VString (Now demo_runtime))])
     = Inr ''{success:false,error:instanceId is required,timestamp:2025-06-01T12:00:00Z,}''"
    by (simp add: demo_runtime_def)
  from CallTool_registered_returns_result [OF h1, of demo_runtime demo_client Map.empty] h1 h2 m
  show ?thesis
    by (simp add: CallTool_def startEC2Instance_def createErrorResponse_def
          marshal_ignoring_error_def)
qed

section \<open>Properties of the resource handlers\<close>

subsection \<open>Splitting and the template of the instance resource\<close>








lemma HasPrefix_append: "HasPrefix (p @ rest) p"
  by (simp add: HasPrefix_def)

lemma TrimPrefix_append: "TrimPrefix (p @ rest) p = rest"
  by (simp add: TrimPrefix_def HasPrefix_def)

lemma ReadResource_prefix:
  "ReadResource rt c (''aws://ec2/instances/'' @ rest) = readEC2Instance rt c rest"
proof -
  have "''aws://ec2/instances/'' @ rest \<noteq> ''aws://ec2/instances''" by simp
  then show ?thesis
    by (simp only: ReadResource_def HasPrefix_append TrimPrefix_append Let_def if_False if_True)
qed

lemma resource_errors_differ:
  "readEC2InstancesList rt c \<noteq> Inl (CHR ''u'' # s)"
  "readEC2Instance rt c instanceID \<noteq> Inl (CHR ''u'' # s)"
  by (simp_all add: readEC2InstancesList_def readEC2Instance_def split: sum.splits)

subsection \<open>Which URIs are matched to the template\<close>












subsection \<open>Empty segments\<close>

text \<open>
  C5 (as the code has it). A URI is answered with the error \<open>unknown resource URI\<close>
  exactly when it is not \<open>aws://ec2/instances\<close> and does not begin with
  \<open>aws://ec2/instances/\<close>. The URI \<open>aws://ec2/instances/\<close>, whose last segment is empty,
  is read as the instance with the empty id: the outcome is the collaborator's answer
  for that id, and an error \<open>e\<close> of the collaborator comes back as
  \<open>failed to get EC2 instance: e\<close>.
\<close>

theorem ReadResource_unknown_iff_no_prefix:
  "(ReadResource rt c uri = Inl (''unknown resource URI: '' @ uri)
      \<longleftrightarrow> uri \<noteq> ''aws://ec2/instances'' \<and> \<not> HasPrefix uri ''aws://ec2/instances/'') \<and>
   ReadResource rt c ''aws://ec2/instances/'' = readEC2Instance rt c [] \<and>
   (\<forall>e. GetEC2Instance c [] = Inl e \<longrightarrow>
      ReadResource rt c ''aws://ec2/instances/'' = Inl (''failed to get EC2 instance: '' @ e))"
proof (intro conjI allI impI)
  show "ReadResource rt c uri = Inl (''unknown resource URI: '' @ uri)
      \<longleftrightarrow> uri \<noteq> ''aws://ec2/instances'' \<and> \<not> HasPrefix uri ''aws://ec2/instances/''"
    by (simp add: ReadResource_def Let_def resource_errors_differ)
next
  have "ReadResource rt c (''aws://ec2/instances/'' @ []) = readEC2Instance rt c []"
    by (rule ReadResource_prefix)
  then show r: "ReadResource rt c ''aws://ec2/instances/'' = readEC2Instance rt c []"
    by simp
  fix e
  assume "GetEC2Instance c [] = Inl e"
  then show "ReadResource rt c ''aws://ec2/instances/'' = Inl (''failed to get EC2 instance: '' @ e)"
    by (simp add: r readEC2Instance_def)
qed

theorem ReadResource_unknown_iff_no_prefix_witness:
  "GetEC2Instance demo_client [] = Inl ''instance  not found'' \<and>
   ReadResource demo_runtime demo_client ''aws://ec2/instances/''
     = Inl ''failed to get EC2 instance: instance  not found'' \<and>
   ReadResource demo_runtime demo_client ''aws://ec2//instances''
     = Inl ''unknown resource URI: aws://ec2//instances''"
proof -
  have h: "GetEC2Instance demo_client [] = Inl ''instance  not found''"
    by (simp add: demo_client_def)
  have n: "''aws://ec2//instances'' \<noteq> ''aws://ec2/instances'' \<and>
           \<not> HasPrefix ''aws://ec2//instances'' ''aws://ec2/instances/''"
    by (simp add: HasPrefix_def)
  note t = ReadResource_unknown_iff_no_prefix [of demo_runtime demo_client]
  from t[of "''aws://ec2/instances/''"] h
  have a: "ReadResource demo_runtime demo_client ''aws://ec2/instances/''
             = Inl (''failed to get EC2 instance: '' @ ''instance  not found'')"
    by blast
  from t[of "''aws://ec2//instances''"] n
  have b: "ReadResource demo_runtime demo_client ''aws://ec2//instances''
             = Inl (''unknown resource URI: '' @ ''aws://ec2//instances'')"
    by blast
  from h a b show ?thesis by simp
qed

text \<open>
  The claim as written fails on its own example: \<open>aws://ec2/instances/\<close> is not answered
  as an unknown resource; the instance handler is asked for the empty id.
\<close>

theorem ReadResource_trailing_slash_counterexample:
  "ReadResource demo_runtime demo_client ''aws://ec2/instances/''
     = readEC2Instance demo_runtime demo_client [] \<and>
   ReadResource demo_runtime demo_client ''aws://ec2/instances/''
     \<noteq> Inl ''unknown resource URI: aws://ec2/instances/''"
  by (simp add: ReadResource_def HasPrefix_def TrimPrefix_def readEC2Instance_def demo_client_def)

subsection \<open>Reading twice\<close>

lemma formatted_entry_stamp:
  "formatted_entry (r\<lparr>LastSeen := s\<rparr>) = formatted_entry r"
  by (simp add: formatted_entry_def)

lemma convertEC2Instance_stamp:
  "(convertEC2Instance c i s)\<lparr>LastSeen := s'\<rparr> = convertEC2Instance c i s'"
  by (simp add: convertEC2Instance_def Let_def)

lemma formatInstances_loop_stamp:
  "formatInstances_loop (map (\<lambda>r. r\<lparr>LastSeen := []\<rparr>) rs) acc = formatInstances_loop rs acc"
proof (induction rs arbitrary: acc)
  case Nil
  show ?case by simp
next
  case (Cons r rs)
  obtain entries stateCount typeCount where acc: "acc = (entries, stateCount, typeCount)"
    by (cases acc)
  show ?case
    unfolding acc by (simp add: Cons.IH formatted_entry_stamp)
qed

lemma formatInstancesForAI_stamp:
  "formatInstancesForAI (map (\<lambda>r. r\<lparr>LastSeen := []\<rparr>) rs) = formatInstancesForAI rs"
  by (simp add: formatInstancesForAI_def formatInstances_loop_stamp)

lemma convert_from_stamp:
  "map (\<lambda>r. r\<lparr>LastSeen := []\<rparr>) (convert_from c clock1 k is)
     = map (\<lambda>r. r\<lparr>LastSeen := []\<rparr>) (convert_from c clock2 k is)"
  by (induction "is" arbitrary: k) (simp_all add: convertEC2Instance_stamp)

lemma formatInstancesForAI_clock:
  "formatInstancesForAI (convert_from c clock1 k is) = formatInstancesForAI (convert_from c clock2 k is)"
proof -
  have "formatInstancesForAI (convert_from c clock1 k is)
          = formatInstancesForAI (map (\<lambda>r. r\<lparr>LastSeen := []\<rparr>) (convert_from c clock1 k is))"
    by (simp only: formatInstancesForAI_stamp)
  also have "\<dots> = formatInstancesForAI (map (\<lambda>r. r\<lparr>LastSeen := []\<rparr>) (convert_from c clock2 k is))"
    by (simp only: convert_from_stamp[of c clock1 k "is" clock2])
  also have "\<dots> = formatInstancesForAI (convert_from c clock2 k is)"
    by (simp only: formatInstancesForAI_stamp)
  finally show ?thesis .
qed

lemma list_read_any_clock:
  assumes "MarshalIndent rt1 = MarshalIndent rt2"
  shows "readEC2InstancesList rt1 (serving c clock1 a1) = readEC2InstancesList rt2 (serving c clock2 a2)"
proof (cases "DescribeInstances c []")
  case (Inl err)
  then show ?thesis
    by (simp add: readEC2InstancesList_def serving_def Client_ListEC2Instances_def)
next
  case (Inr reservations)
  with assms formatInstancesForAI_clock[of c clock1 0 "concat reservations" clock2]
  show ?thesis
    by (simp add: readEC2InstancesList_def serving_def Client_ListEC2Instances_def)
qed

lemma instance_read_same_stamp:
  assumes "MarshalIndent rt1 = MarshalIndent rt2" and "clock1 0 = clock2 0"
  shows "readEC2Instance rt1 (serving c clock1 a1) instanceID = readEC2Instance rt2 (serving c clock2 a2) instanceID"
proof -
  have "Client_GetEC2Instance c clock1 instanceID = Client_GetEC2Instance c clock2 instanceID"
    by (simp only: Client_GetEC2Instance_def assms(2))
  then show ?thesis
    using assms(1) by (simp add: readEC2Instance_def serving_def cong: sum.case_cong)
qed

text \<open>
  C8 (as the code has it). Two reads of the list resource against the same backing
  state give the same result, whatever the clock reads at either. Two reads of any URI
  against the same backing state give the same result when the reading of the clock
  with which the client stamps the record at the second read is, as \<open>last_seen\<close> prints
  it to the second, the reading at the first. The encoder is the same function at both
  reads; the collaborator's actions and the runtime's own clock may differ.
\<close>

theorem ReadResource_twice_unchanged_state:
  assumes enc: "MarshalIndent rt1 = MarshalIndent rt2"
  shows "ReadResource rt1 (serving c clock1 a1) ''aws://ec2/instances''
           = ReadResource rt2 (serving c clock2 a2) ''aws://ec2/instances'' \<and>
         (clock1 0 = clock2 0 \<longrightarrow>
            ReadResource rt1 (serving c clock1 a1) uri = ReadResource rt2 (serving c clock2 a2) uri)"
  using list_read_any_clock[OF enc, of c clock1 a1 clock2 a2]
        instance_read_same_stamp[OF enc, of clock1 clock2 c a1 _ a2]
  by (simp add: ReadResource_def Let_def)

theorem ReadResource_twice_unchanged_state_witness:
  "MarshalIndent demo_runtime = MarshalIndent demo_runtime_later \<and>
   demo_clock_first 0 = demo_clock_same_second 0 \<and>
   demo_clock_first 1 \<noteq> demo_clock_same_second 1 \<and>
   ReadResource demo_runtime (serving demo_ec2 demo_clock_first demo_client) ''aws://ec2/instances''
     = ReadResource demo_runtime_later (serving demo_ec2 demo_clock_second demo_client_later)
         ''aws://ec2/instances'' \<and>
   ReadResource demo_runtime (serving demo_ec2 demo_clock_first demo_client)
       ''aws://ec2/instances/i-12345''
     = ReadResource demo_runtime_later (serving demo_ec2 demo_clock_same_second demo_client_later)
         ''aws://ec2/instances/i-12345''"
proof -
  have h1: "MarshalIndent demo_runtime = MarshalIndent demo_runtime_later"
    by (simp add: demo_runtime_later_def)
  have h2: "demo_clock_first 0 = demo_clock_same_second 0"
    by (simp add: demo_clock_first_def demo_clock_same_second_def)
  have h3: "demo_clock_first 1 \<noteq> demo_clock_same_second 1"
    by (simp add: demo_clock_first_def demo_clock_same_second_def)
  from ReadResource_twice_unchanged_state
         [OF h1, of demo_ec2 demo_clock_first demo_client demo_clock_second demo_client_later]
  have a: "ReadResource demo_runtime (serving demo_ec2 demo_clock_first demo_client) ''aws://ec2/instances''
     = ReadResource demo_runtime_later (serving demo_ec2 demo_clock_second demo_client_later)
         ''aws://ec2/instances''"
    by (rule conjunct1)
  from ReadResource_twice_unchanged_state
         [OF h1, of demo_ec2 demo_clock_first demo_client demo_clock_same_second demo_client_later
            "''aws://ec2/instances/i-12345''"] h2
  have b: "ReadResource demo_runtime (serving demo_ec2 demo_clock_first demo_client)
       ''aws://ec2/instances/i-12345''
     = ReadResource demo_runtime_later (serving demo_ec2 demo_clock_same_second demo_client_later)
         ''aws://ec2/instances/i-12345''"
    by (elim conjE impE)
  from h1 h2 h3 a b show ?thesis by (intro conjI)
qed

text \<open>
  The claim as written fails for the instance resource: with the backing state
  unchanged and the second read five seconds after the first, the client stamps the
  record with another \<open>LastSeen\<close>, the maps handed to the encoder differ under
  \<open>last_seen\<close>, and so do the results.
\<close>

theorem ReadResource_twice_last_seen_counterexample:
  "DescribeInstances demo_ec2 [''i-12345''] = Inr [[demo_ec2_instance]] \<and>
   formatInstanceForAI (convertEC2Instance demo_ec2 demo_ec2_instance (demo_clock_first 0))
     \<noteq> formatInstanceForAI (convertEC2Instance demo_ec2 demo_ec2_instance (demo_clock_second 0)) \<and>
   ReadResource demo_runtime (serving demo_ec2 demo_clock_first demo_client) ''aws://ec2/instances/i-12345''
     \<noteq> ReadResource demo_runtime (serving demo_ec2 demo_clock_second demo_client) ''aws://ec2/instances/i-12345''"
  by (simp add: demo_ec2_def demo_ec2_instance_def demo_clock_first_def demo_clock_second_def
        formatInstanceForAI_def convertEC2Instance_def Let_def
        ReadResource_def HasPrefix_def TrimPrefix_def readEC2Instance_def serving_def
        Client_GetEC2Instance_def demo_runtime_def)

section \<open>Properties of the transport loop\<close>

lemma Start_loop_prefix:
  "snd (Start_loop srv ctx_err events scan_err io)
     = snd (Start_loop srv ctx_err (takeWhile (\<lambda>e. \<not> snd e) events) None io)"
proof (induction events arbitrary: io)
  case Nil
  show ?case by simp
next
  case (Cons e events)
  obtain line d where e: "e = (line, d)" by (cases e)
  show ?case
    unfolding e using Cons.IH
    by (simp add: Let_def split: option.splits sum.splits)
qed

lemma Start_loop_dispatched:
  "dispatched (snd (Start_loop srv ctx_err events scan_err io))
     = dispatched io @ filter (\<lambda>line. line \<noteq> []) (map fst (takeWhile (\<lambda>e. \<not> snd e) events))"
proof (induction events arbitrary: io)
  case Nil
  show ?case by simp
next
  case (Cons e events)
  obtain line d where e: "e = (line, d)" by (cases e)
  show ?case
    unfolding e
    by (simp add: Cons.IH Let_def split: option.splits sum.splits)
qed

lemma Start_loop_result:
  "fst (Start_loop srv ctx_err events scan_err io)
     = (if \<exists>e \<in> set events. snd e then Some ctx_err else scan_err)"
proof (induction events arbitrary: io)
  case Nil
  show ?case by simp
next
  case (Cons e events)
  obtain line d where e: "e = (line, d)" by (cases e)
  show ?case
    unfolding e
    by (simp add: Cons.IH Let_def split: option.splits sum.splits)
qed

text \<open>
  C7. In every run of the loop the cancellation signal is read after each line is
  scanned and before anything is done with it. The lines handed to the server are the
  non-empty lines scanned before the first check that finds the signal set; the whole
  trace of the run is that of those lines alone; and when some check finds the signal
  set the loop returns the cancellation error, otherwise what the scanner reports.
\<close>

theorem Start_stops_at_cancellation:
  "dispatched (snd (Start srv ctx_err events scan_err))
     = filter (\<lambda>line. line \<noteq> []) (map fst (takeWhile (\<lambda>e. \<not> snd e) events)) \<and>
   snd (Start srv ctx_err events scan_err)
     = snd (Start srv ctx_err (takeWhile (\<lambda>e. \<not> snd e) events) None) \<and>
   ((\<exists>e \<in> set events. snd e) \<longrightarrow> fst (Start srv ctx_err events scan_err) = Some ctx_err) \<and>
   ((\<forall>e \<in> set events. \<not> snd e) \<longrightarrow> fst (Start srv ctx_err events scan_err) = scan_err)"
  unfolding Start_def
  using Start_loop_prefix[of srv ctx_err events scan_err]
  by (simp add: Start_loop_dispatched Start_loop_result)

theorem Start_stops_at_cancellation_witness:
  "(''c'', True) \<in> set [(''a'', False), ([], False), (''b'', False), (''c'', True), (''d'', False)] \<and>
   takeWhile (\<lambda>e. \<not> snd e) [(''a'', False), ([], False), (''b'', False), (''c'', True), (''d'', False)]
     = [(''a'', False), ([], False), (''b'', False)] \<and>
   dispatched (snd (Start demo_server ''context canceled''
       [(''a'', False), ([], False), (''b'', False), (''c'', True), (''d'', False)] None))
     = [''a'', ''b''] \<and>
   fst (Start demo_server ''context canceled''
       [(''a'', False), ([], False), (''b'', False), (''c'', True), (''d'', False)] None)
     = Some ''context canceled'' \<and>
   fst (Start demo_server ''context canceled''
       [(''a'', False), ([], False), (''b'', False)] (Some ''read failed''))
     = Some ''read failed''"
proof -
  let ?ev = "[(''a'', False), ([], False), (''b'', False), (''c'', True), (''d'', False)]"
  let ?pre = "[(''a'', False), ([], False), (''b'', False)]"
  have h1: "\<exists>e \<in> set ?ev. snd e" by simp
  have h2: "\<forall>e \<in> set ?pre. \<not> snd e" by simp
  have tw: "takeWhile (\<lambda>e. \<not> snd e) ?ev = ?pre" by simp
  from Start_stops_at_cancellation [of demo_server "''context canceled''" ?ev None] h1
  have a: "dispatched (snd (Start demo_server ''context canceled'' ?ev None))
             = filter (\<lambda>line. line \<noteq> []) (map fst (takeWhile (\<lambda>e. \<not> snd e) ?ev))"
    and b: "fst (Start demo_server ''context canceled'' ?ev None) = Some ''context canceled''"
    by blast+
  from Start_stops_at_cancellation [of demo_server "''context canceled''" ?pre "Some ''read failed''"] h2
  have c: "fst (Start demo_server ''context canceled'' ?pre (Some ''read failed'')) = Some ''read failed''"
    by blast
  from a have a': "dispatched (snd (Start demo_server ''context canceled'' ?ev None)) = [''a'', ''b'']"
    by (simp only: tw) simp
  from tw a' b c show ?thesis by simp
qed

end
